theory Spec2Isabelle
  imports Main
begin

section \<open>Time values and schedule entries\<close>

text \<open>
  The monitor of \<^verbatim>\<open>src/discord/titles/nintendo/splatoon3.ts\<close> compares
  \<^verbatim>\<open>new Date(s).getTime()\<close> with \<^verbatim>\<open>Date.now()\<close>. A time value is an integral
  number of milliseconds, or NaN when the string does not parse; NaN is \<open>None\<close> here. The
  parser of \<^verbatim>\<open>Date\<close> belongs to the platform, so every function that reads a time takes
  it as the parameter \<open>tm :: string \<Rightarrow> int option\<close>, and the reading of \<^verbatim>\<open>Date.now()\<close>
  as an \<open>int\<close>.
\<close>

definition js_ge :: "int option \<Rightarrow> int \<Rightarrow> bool" where
  \<comment> \<open>\<^verbatim>\<open>t >= now\<close>: every comparison with NaN is false\<close>
  "js_ge t now = (case t of None \<Rightarrow> False | Some a \<Rightarrow> a \<ge> now)"

definition js_lt :: "int option \<Rightarrow> int \<Rightarrow> bool" where
  \<comment> \<open>\<^verbatim>\<open>t < now\<close>: every comparison with NaN is false\<close>
  "js_lt t now = (case t of None \<Rightarrow> False | Some a \<Rightarrow> a < now)"

text \<open>\<^verbatim>\<open>T extends {startTime: string; endTime: string;}\<close>: an extensible record.\<close>

record schedule =
  startTime :: string
  endTime :: string

text \<open>
  \<^verbatim>\<open>getSchedule\<close> (lines 124-138): the \<^verbatim>\<open>for ... of\<close> loop over the array, with its two
  \<^verbatim>\<open>continue\<close> guards in the source's order, and \<^verbatim>\<open>return null\<close> after the loop.
\<close>

fun getSchedule ::
  "(string \<Rightarrow> int option) \<Rightarrow> int \<Rightarrow> 'a schedule_scheme list \<Rightarrow> 'a schedule_scheme option" where
  "getSchedule tm now [] = None"
| "getSchedule tm now (s # schedules) =
     (if js_ge (tm (startTime s)) now then getSchedule tm now schedules
      else if js_lt (tm (endTime s)) now then getSchedule tm now schedules
      else Some s)"

text \<open>
  The selection as the specification words it: the first entry whose interval
  \<open>[start, end)\<close> contains \<open>now\<close>, that is \<open>start \<le> now < end\<close>, and nothing when there is
  none. Written from the specification, to be compared with \<open>getSchedule\<close>.
\<close>

definition spec_contains_now :: "(string \<Rightarrow> int option) \<Rightarrow> int \<Rightarrow> 'a schedule_scheme \<Rightarrow> bool" where
  "spec_contains_now tm now s =
     (case (tm (startTime s), tm (endTime s)) of
        (Some a, Some b) \<Rightarrow> a \<le> now \<and> now < b
      | _ \<Rightarrow> False)"

definition spec_active_selection ::
  "(string \<Rightarrow> int option) \<Rightarrow> int \<Rightarrow> 'a schedule_scheme list \<Rightarrow> 'a schedule_scheme option" where
  "spec_active_selection tm now schedules = List.find (spec_contains_now tm now) schedules"

text \<open>
  The interval the code tests: \<open>start < now \<le> end\<close>, where a time that does not parse
  passes its comparison.
\<close>

definition covers_now :: "(string \<Rightarrow> int option) \<Rightarrow> int \<Rightarrow> 'a schedule_scheme \<Rightarrow> bool" where
  "covers_now tm now s =
     ((case tm (startTime s) of None \<Rightarrow> True | Some a \<Rightarrow> a < now) \<and>
      (case tm (endTime s) of None \<Rightarrow> True | Some b \<Rightarrow> now \<le> b))"

text \<open>Exactly one entry of a list covers \<open>now\<close>, and it is \<open>p\<close>.\<close>

definition sole_active ::
  "(string \<Rightarrow> int option) \<Rightarrow> int \<Rightarrow> 'a schedule_scheme list \<Rightarrow> 'a schedule_scheme \<Rightarrow> bool" where
  "sole_active tm now xs p =
     (p \<in> set xs \<and> covers_now tm now p \<and> (\<forall>q \<in> set xs. covers_now tm now q \<longrightarrow> q = p))"

text \<open>
  A table of parsed times for the examples: ISO 8601 strings of one rotation day and
  their time values in milliseconds; any other string is an invalid date.
\<close>

definition example_times :: "string \<Rightarrow> int option" where
  "example_times = map_of
     [(''2022-09-21T00:00:00Z'', 1663718400000),
      (''2022-09-21T02:00:00Z'', 1663725600000),
      (''2022-09-21T04:00:00Z'', 1663732800000),
      (''2022-09-21T06:00:00Z'', 1663740000000)]"

definition rotation_a :: schedule where
  "rotation_a = \<lparr>startTime = ''2022-09-21T00:00:00Z'', endTime = ''2022-09-21T02:00:00Z''\<rparr>"

definition rotation_b :: schedule where
  "rotation_b = \<lparr>startTime = ''2022-09-21T02:00:00Z'', endTime = ''2022-09-21T04:00:00Z''\<rparr>"

definition rotation_long :: schedule where
  "rotation_long = \<lparr>startTime = ''2022-09-21T00:00:00Z'', endTime = ''2022-09-21T06:00:00Z''\<rparr>"

section \<open>Data of the monitor\<close>

text \<open>
  The response types are declared in \<^verbatim>\<open>api/splatnet3-types.js\<close>, which is not among
  the sources; the records hold the fields that \<^verbatim>\<open>splatoon3.ts\<close> reads, under the names
  it reads them by (a path such as \<^verbatim>\<open>vsRule.name\<close> becomes one field). The layers
  \<^verbatim>\<open>.data\<close> and \<^verbatim>\<open>.nodes\<close> of a GraphQL response are flattened.
\<close>

datatype FriendOnlineState =
  VS_MODE_MATCHING | VS_MODE_FIGHTING | COOP_MODE_MATCHING | COOP_MODE_FIGHTING
  | OtherOnlineState string  \<comment> \<open>every member the source does not name\<close>

datatype BankaraMatchMode = CHALLENGE | OPEN

record VsMode =
  vsMode_mode :: string  \<comment> \<open>\<^verbatim>\<open>vsMode.mode\<close>\<close>
  vsMode_id :: string  \<comment> \<open>\<^verbatim>\<open>vsMode.id\<close>\<close>
  vsMode_name :: string  \<comment> \<open>\<^verbatim>\<open>vsMode.name\<close>\<close>

record Friend =
  friend_id :: string  \<comment> \<open>\<^verbatim>\<open>f.id\<close>\<close>
  onlineState :: FriendOnlineState
  vsMode :: "VsMode option"

record VsStage =
  stage_id :: string
  stage_name :: string

record VsMatchSetting =
  vsRule_name :: string  \<comment> \<open>\<^verbatim>\<open>vsRule.name\<close>\<close>
  vsStages :: "VsStage list"

record BankaraMatchSetting = VsMatchSetting +
  bankara_mode :: BankaraMatchMode  \<comment> \<open>\<^verbatim>\<open>s.mode\<close>\<close>

text \<open>
  The match setting of an entry is read through \<^verbatim>\<open>?.\<close> and tested for truthiness
  before use, so it is modelled as nullable; \<^verbatim>\<open>bankaraMatchSettings\<close> and the co-op
  \<^verbatim>\<open>setting\<close> are read directly.
\<close>

record RegularSchedule = schedule +
  regularMatchSetting :: "VsMatchSetting option"

record BankaraSchedule = schedule +
  bankaraMatchSettings :: "BankaraMatchSetting list"

record FestSchedule = schedule +
  festMatchSetting :: "VsMatchSetting option"

record LeagueSchedule = schedule +
  leagueMatchSetting :: "VsMatchSetting option"

record XSchedule = schedule +
  xMatchSetting :: "VsMatchSetting option"

record CoopSchedule = schedule +
  coopStage_name :: string  \<comment> \<open>\<^verbatim>\<open>setting.coopStage.name\<close>\<close>
  coopStage_image_url :: string  \<comment> \<open>\<^verbatim>\<open>setting.coopStage.image.url\<close>\<close>

record StageScheduleResult =
  regularSchedules :: "RegularSchedule list"
  bankaraSchedules :: "BankaraSchedule list"
  festSchedules :: "FestSchedule list"
  leagueSchedules :: "LeagueSchedule list"
  xSchedules :: "XSchedule list"
  coopSchedules :: "CoopSchedule list"  \<comment> \<open>\<^verbatim>\<open>coopGroupingSchedule.regularSchedules.nodes\<close>\<close>

datatype error =
  TypeError  \<comment> \<open>a property read on \<^verbatim>\<open>null\<close> or \<^verbatim>\<open>undefined\<close>, an invalid URL\<close>
  | Rejected string  \<comment> \<open>a request of the upstream API that fails\<close>

text \<open>
  \<^verbatim>\<open>SplatNet3Api\<close>, seen from one cycle: what each of the two requests that
  \<^verbatim>\<open>update\<close> can make resolves to (\<open>Inr\<close>) or is rejected with (\<open>Inl\<close>).
\<close>

record SplatNet3Api =
  getFriendsRefetch :: "error + Friend list"
  getSchedules :: "error + StageScheduleResult"

record SplatNet3MonitorConfig =
  storage :: nat  \<comment> \<open>the identity of the \<^verbatim>\<open>persist.LocalStorage\<close> object (\<^verbatim>\<open>!==\<close> on objects)\<close>
  na_session_token :: string
  znc_proxy_url :: "string option"
  allow_fetch_token :: bool
  friend_nsaid :: "string option"

text \<open>
  Modelled from the spec: the states of the loop that \<^verbatim>\<open>EmbeddedLoop\<close>
  (\<^verbatim>\<open>util/loop.js\<close>, not among the sources) supplies: Pending, Running, Disabled and
  Stopped.
\<close>

datatype LoopState = Pending | Running | Disabled | Stopped

text \<open>The two results of \<^verbatim>\<open>LoopResult\<close> that the monitor returns.\<close>

datatype LoopResult = OK | OK_SKIP_INTERVAL

text \<open>
  The verdicts of the owner's error policy (\<^verbatim>\<open>discord/types.js\<close>): the monitor tests
  for \<^verbatim>\<open>RETRY\<close> and for \<^verbatim>\<open>STOP\<close>; \<open>IGNORE\<close> stands for any other verdict.
\<close>

datatype ErrorResult = STOP | RETRY | IGNORE

record SplatNet3Monitor =
  config :: "SplatNet3MonitorConfig option"
  presence_user :: "string option"
    \<comment> \<open>\<^verbatim>\<open>discord_presence.znc_discord_presence.presence_user\<close>\<close>
  splatnet :: "SplatNet3Api option"
  cached_friends :: "Friend list option"
  cached_schedules :: "StageScheduleResult option"
  friend :: "Friend option"
  regular_schedule :: "RegularSchedule option"
  anarchy_schedule :: "BankaraSchedule option"
  fest_schedule :: "FestSchedule option"
  league_schedule :: "LeagueSchedule option"
  x_schedule :: "XSchedule option"
  coop_schedule :: "CoopSchedule option"
  loop_state :: LoopState
  skip_interval :: bool

text \<open>
  Modelled from the spec: \<^verbatim>\<open>disable()\<close> of \<^verbatim>\<open>EmbeddedLoop\<close>, which is not among the
  sources. It moves the loop to Disabled; no further cycle runs.
\<close>

definition disable :: "SplatNet3Monitor \<Rightarrow> SplatNet3Monitor" where
  "disable m = m\<lparr>loop_state := Disabled\<rparr>"

text \<open>
  Modelled from the spec: \<^verbatim>\<open>skipIntervalInCurrentLoop()\<close> of \<^verbatim>\<open>EmbeddedLoop\<close>, which
  is not among the sources. It leaves a request to skip the sleep once; asking twice is
  asking once.
\<close>

definition skipIntervalInCurrentLoop :: "SplatNet3Monitor \<Rightarrow> SplatNet3Monitor" where
  "skipIntervalInCurrentLoop m = m\<lparr>skip_interval := True\<rparr>"

text \<open>What a cycle does to the world outside the monitor, in order.\<close>

datatype event = CallGetFriendsRefetch | CallGetSchedules | RefreshPresence

section \<open>Reconfiguration\<close>

text \<open>
  \<^verbatim>\<open>onUpdateConfig\<close> (lines 43-55). \<^verbatim>\<open>!!config\<close> is true for every object, and
  \<^verbatim>\<open>config?.f\<close> is \<^verbatim>\<open>undefined\<close> on \<^verbatim>\<open>null\<close>. The result is the monitor and the
  returned boolean.
\<close>

definition onUpdateConfig ::
  "SplatNet3MonitorConfig option \<Rightarrow> SplatNet3Monitor \<Rightarrow> SplatNet3Monitor \<times> bool" where
  "onUpdateConfig cfg m =
     (if (cfg \<noteq> None) \<noteq> (config m \<noteq> None) then (m, False)
      else if map_option storage cfg \<noteq> map_option storage (config m) then (m, False)
      else if map_option na_session_token cfg \<noteq> map_option na_session_token (config m)
        then (m, False)
      else if Option.bind cfg znc_proxy_url \<noteq> Option.bind (config m) znc_proxy_url
        then (m, False)
      else if map_option allow_fetch_token cfg \<noteq> map_option allow_fetch_token (config m)
        then (m, False)
      else (skipIntervalInCurrentLoop (m\<lparr>config := cfg\<rparr>), True))"

text \<open>
  The equality check in the specification's words: both present or both absent, and
  equal storage, session token, proxy URL and fetch permission.
\<close>

definition config_equivalent ::
  "SplatNet3MonitorConfig option \<Rightarrow> SplatNet3MonitorConfig option \<Rightarrow> bool" where
  "config_equivalent new old =
     (case (new, old) of
        (None, None) \<Rightarrow> True
      | (Some c, Some d) \<Rightarrow>
          storage c = storage d \<and> na_session_token c = na_session_token d \<and>
          znc_proxy_url c = znc_proxy_url d \<and> allow_fetch_token c = allow_fetch_token d
      | _ \<Rightarrow> False)"

text \<open>The getter \<^verbatim>\<open>friend_nsaid\<close> (lines 57-59): \<^verbatim>\<open>??\<close> passes over null and undefined.\<close>

definition get_friend_nsaid :: "SplatNet3Monitor \<Rightarrow> string option" where
  "get_friend_nsaid m =
     (case Option.bind (config m) friend_nsaid of
        Some n \<Rightarrow> Some n
      | None \<Rightarrow> presence_user m)"

section \<open>The cycle\<close>

text \<open>
  \<^verbatim>\<open>update\<close> (lines 99-122). \<open>b64\<close> is \<^verbatim>\<open>Buffer.from(s).toString('base64')\<close>; \<open>clk k\<close>
  is what \<^verbatim>\<open>Date.now()\<close> reads at the \<open>k\<close>-th call of \<^verbatim>\<open>getSchedule\<close> in the text of
  \<^verbatim>\<open>update\<close> (0 and 1: the regular schedules before and after the refetch; 2 to 6: the
  other five kinds). The result is the monitor as the cycle leaves it, the events in
  order, and \<open>Inl\<close> the exception that ends the cycle early.
\<close>

definition friend_node_id :: "(string \<Rightarrow> string) \<Rightarrow> SplatNet3Monitor \<Rightarrow> string" where
  \<comment> \<open>line 103; \<^verbatim>\<open>'Friend-' + null\<close> is \<^verbatim>\<open>'Friend-null'\<close>\<close>
  "friend_node_id b64 m =
     b64 (''Friend-'' @ (case get_friend_nsaid m of None \<Rightarrow> ''null'' | Some n \<Rightarrow> n))"

definition select_others ::
  "(string \<Rightarrow> int option) \<Rightarrow> (nat \<Rightarrow> int) \<Rightarrow> SplatNet3Monitor \<Rightarrow> SplatNet3Monitor" where
  \<comment> \<open>lines 115-119\<close>
  "select_others tm clk m =
     m\<lparr>anarchy_schedule :=
         getSchedule tm (clk 2) (case cached_schedules m of None \<Rightarrow> [] | Some r \<Rightarrow> bankaraSchedules r),
       fest_schedule :=
         getSchedule tm (clk 3) (case cached_schedules m of None \<Rightarrow> [] | Some r \<Rightarrow> festSchedules r),
       league_schedule :=
         getSchedule tm (clk 4) (case cached_schedules m of None \<Rightarrow> [] | Some r \<Rightarrow> leagueSchedules r),
       x_schedule :=
         getSchedule tm (clk 5) (case cached_schedules m of None \<Rightarrow> [] | Some r \<Rightarrow> xSchedules r),
       coop_schedule :=
         getSchedule tm (clk 6) (case cached_schedules m of None \<Rightarrow> [] | Some r \<Rightarrow> coopSchedules r)\<rparr>"

definition update_schedules ::
  "(string \<Rightarrow> int option) \<Rightarrow> (nat \<Rightarrow> int) \<Rightarrow> SplatNet3Monitor
    \<Rightarrow> SplatNet3Monitor \<times> event list \<times> (error + unit)" where
  \<comment> \<open>lines 108-121\<close>
  "update_schedules tm clk m0 =
     (let m1 = m0\<lparr>regular_schedule :=
             getSchedule tm (clk 0)
               (case cached_schedules m0 of None \<Rightarrow> [] | Some r \<Rightarrow> regularSchedules r)\<rparr>
      in if regular_schedule m1 = None then
           (case splatnet m1 of
              None \<Rightarrow> (m1, [], Inl TypeError)
            | Some api \<Rightarrow>
                (case getSchedules api of
                   Inl e \<Rightarrow> (m1, [CallGetSchedules], Inl e)
                 | Inr r \<Rightarrow>
                     (let m2 = m1\<lparr>cached_schedules := Some r\<rparr>;
                          m3 = m2\<lparr>regular_schedule :=
                                 getSchedule tm (clk 1) (regularSchedules r)\<rparr>
                      in (select_others tm clk m3, [CallGetSchedules, RefreshPresence], Inr ()))))
         else (select_others tm clk m1, [RefreshPresence], Inr ()))"

definition update ::
  "(string \<Rightarrow> string) \<Rightarrow> (string \<Rightarrow> int option) \<Rightarrow> (nat \<Rightarrow> int) \<Rightarrow> SplatNet3Monitor
    \<Rightarrow> SplatNet3Monitor \<times> event list \<times> (error + unit)" where
  "update b64 tm clk m =
     (case (case cached_friends m of
              Some fs \<Rightarrow> Inr (Some fs, [])
            | None \<Rightarrow>
                (case splatnet m of
                   None \<Rightarrow> Inr (None, [])
                 | Some api \<Rightarrow>
                     (case getFriendsRefetch api of
                        Inl e \<Rightarrow> Inl e
                      | Inr fs \<Rightarrow> Inr (Some fs, [CallGetFriendsRefetch])))) of
        Inl e \<Rightarrow> (m, [CallGetFriendsRefetch], Inl e)
      | Inr (friends, evs) \<Rightarrow>
          (let m1 = m\<lparr>cached_friends := None\<rparr>;
               fid = friend_node_id b64 m1;
               f = (case friends of
                      None \<Rightarrow> None
                    | Some fs \<Rightarrow> List.find (\<lambda>f. friend_id f = fid) fs);
               m2 = m1\<lparr>friend := f\<rparr>
           in (case update_schedules tm clk m2 of
                 (m3, evs', res) \<Rightarrow> (m3, evs @ evs', res))))"

text \<open>The selection that line 108 makes from the cached schedule set.\<close>

definition regular_selection ::
  "(string \<Rightarrow> int option) \<Rightarrow> int \<Rightarrow> StageScheduleResult option \<Rightarrow> RegularSchedule option" where
  "regular_selection tm now cache =
     getSchedule tm now (case cache of None \<Rightarrow> [] | Some r \<Rightarrow> regularSchedules r)"

text \<open>
  The cycle gets as far as a request for the schedules: the API object is there (it is
  set by \<^verbatim>\<open>init\<close>), and the friend list is cached or its request (line 100) resolves.
\<close>

definition reaches_refetch :: "SplatNet3Monitor \<Rightarrow> bool" where
  "reaches_refetch m =
     (case splatnet m of
        None \<Rightarrow> False
      | Some api \<Rightarrow>
          (case cached_friends m of
             Some fs \<Rightarrow> True
           | None \<Rightarrow> (case getFriendsRefetch api of Inl e \<Rightarrow> False | Inr fs \<Rightarrow> True)))"

text \<open>
  The friend list that a cycle reads (line 100): the cached one, or else the one the
  API returns; nothing when there is no API object or the request is rejected.
\<close>

definition friends_read :: "SplatNet3Monitor \<Rightarrow> Friend list option" where
  "friends_read m =
     (case cached_friends m of
        Some fs \<Rightarrow> Some fs
      | None \<Rightarrow>
          (case splatnet m of
             None \<Rightarrow> None
           | Some api \<Rightarrow> (case getFriendsRefetch api of Inl e \<Rightarrow> None | Inr fs \<Rightarrow> Some fs)))"

text \<open>
  The account id that line 103 puts after \<^verbatim>\<open>'Friend-'\<close>, for a configuration and the
  user of the presence: \<^verbatim>\<open>friend_nsaid ?? presence_user\<close>, and \<^verbatim>\<open>null\<close> printed as a
  string. Written from the amended claim C9, to be compared with \<open>friend_node_id\<close>.
\<close>

definition tracked_nsaid :: "SplatNet3MonitorConfig \<Rightarrow> string option \<Rightarrow> string" where
  "tracked_nsaid c user =
     (case friend_nsaid c of
        Some n \<Rightarrow> n
      | None \<Rightarrow> (case user of Some u \<Rightarrow> u | None \<Rightarrow> ''null''))"

text \<open>How many times a cycle asks the upstream API for the schedules.\<close>

definition refetches ::
  "(string \<Rightarrow> string) \<Rightarrow> (string \<Rightarrow> int option) \<Rightarrow> (nat \<Rightarrow> int) \<Rightarrow> SplatNet3Monitor \<Rightarrow> nat" where
  "refetches b64 tm clk m = count_list (fst (snd (update b64 tm clk m))) CallGetSchedules"

text \<open>
  The miss in the specification's words: there is no cached schedule set, or the cached
  set yields an empty active selection, for every kind of schedule.
\<close>

definition no_active_selection ::
  "(string \<Rightarrow> int option) \<Rightarrow> int \<Rightarrow> StageScheduleResult option \<Rightarrow> bool" where
  "no_active_selection tm now cache =
     (case cache of
        None \<Rightarrow> True
      | Some r \<Rightarrow>
          getSchedule tm now (regularSchedules r) = None \<and>
          getSchedule tm now (bankaraSchedules r) = None \<and>
          getSchedule tm now (festSchedules r) = None \<and>
          getSchedule tm now (leagueSchedules r) = None \<and>
          getSchedule tm now (xSchedules r) = None \<and>
          getSchedule tm now (coopSchedules r) = None)"

text \<open>Every entry of a schedule set lies in the past: its end time is before \<open>now\<close>.\<close>

definition in_the_past :: "(string \<Rightarrow> int option) \<Rightarrow> int \<Rightarrow> 'a schedule_scheme \<Rightarrow> bool" where
  "in_the_past tm now s = (case tm (endTime s) of None \<Rightarrow> False | Some b \<Rightarrow> b < now)"

definition all_in_the_past :: "(string \<Rightarrow> int option) \<Rightarrow> int \<Rightarrow> StageScheduleResult \<Rightarrow> bool" where
  "all_in_the_past tm now r =
     (list_all (in_the_past tm now) (regularSchedules r) \<and>
      list_all (in_the_past tm now) (bankaraSchedules r) \<and>
      list_all (in_the_past tm now) (festSchedules r) \<and>
      list_all (in_the_past tm now) (leagueSchedules r) \<and>
      list_all (in_the_past tm now) (xSchedules r) \<and>
      list_all (in_the_past tm now) (coopSchedules r))"

section \<open>Errors of a cycle\<close>

text \<open>
  \<^verbatim>\<open>handleError\<close> (lines 140-149). \<open>policy\<close> is the owner's
  \<^verbatim>\<open>discord_presence.handleError\<close>.
\<close>

definition handleError ::
  "('e \<Rightarrow> ErrorResult) \<Rightarrow> 'e \<Rightarrow> SplatNet3Monitor
    \<Rightarrow> SplatNet3Monitor \<times> event list \<times> LoopResult" where
  "handleError policy err m =
     (let result = policy err
      in if result = RETRY then (m, [], OK_SKIP_INTERVAL)
         else (let m1 = m\<lparr>friend := None\<rparr>;
                   m2 = (if result = STOP then disable m1 else m1)
               in (m2, [RefreshPresence], OK)))"

section \<open>The activity builder\<close>

text \<open>
  \<^verbatim>\<open>DiscordRPC.Presence\<close>: the fields the callback writes and one it does not; every
  other field is in the extension of the record.
\<close>

record Presence =
  state :: "string option"
  details :: "string option"
  largeImageKey :: "string option"
  largeImageText :: "string option"
  smallImageKey :: "string option"
  smallImageText :: "string option"

datatype ExternalMonitor =
  SplatNet3 SplatNet3Monitor  \<comment> \<open>\<^verbatim>\<open>m instanceof SplatNet3Monitor\<close>\<close>
  | OtherMonitor

record DiscordPresenceContext =
  monitors :: "ExternalMonitor list option"

fun find_monitor :: "ExternalMonitor list \<Rightarrow> SplatNet3Monitor option" where
  "find_monitor [] = None"
| "find_monitor (SplatNet3 m # ms) = Some m"
| "find_monitor (OtherMonitor # ms) = find_monitor ms"

definition mode_image :: "VsMode option \<Rightarrow> string option" where
  \<comment> \<open>lines 195-201\<close>
  "mode_image vm =
     (if map_option vsMode_mode vm = Some ''REGULAR'' then Some ''mode-regular-1''
      else if map_option vsMode_mode vm = Some ''BANKARA'' then Some ''mode-anarchy-1''
      else if map_option vsMode_mode vm = Some ''FEST'' then Some ''mode-fest-1''
      else if map_option vsMode_mode vm = Some ''LEAGUE'' then Some ''mode-league-1''
      else if map_option vsMode_mode vm = Some ''X_MATCH'' then Some ''mode-x-1''
      else None)"

definition mode_name :: "VsMode option \<Rightarrow> string option" where
  \<comment> \<open>lines 203-211\<close>
  "mode_name vm =
     (if map_option vsMode_mode vm = Some ''REGULAR'' then Some ''Regular Battle''
      else if map_option vsMode_id vm = Some ''VnNNb2RlLTI='' then Some ''Anarchy Battle (Series)''
      else if map_option vsMode_id vm = Some ''VnNNb2RlLTUx'' then Some ''Anarchy Battle (Open)''
      else if map_option vsMode_mode vm = Some ''BANKARA'' then Some ''Anarchy Battle''
      else if map_option vsMode_mode vm = Some ''FEST'' then Some ''Splatfest Battle''
      else if map_option vsMode_mode vm = Some ''LEAGUE'' then Some ''League Battle''
      else if map_option vsMode_mode vm = Some ''X_MATCH'' then Some ''X Battle''
      else None)"

definition bankara_setting :: "BankaraMatchMode \<Rightarrow> BankaraSchedule option \<Rightarrow> VsMatchSetting option" where
  \<comment> \<open>\<^verbatim>\<open>anarchy_schedule?.bankaraMatchSettings.find(s => s.mode === k)\<close>\<close>
  "bankara_setting k sched =
     (case sched of
        None \<Rightarrow> None
      | Some a \<Rightarrow> map_option VsMatchSetting.truncate
          (List.find (\<lambda>s. bankara_mode s = k) (bankaraMatchSettings a)))"

definition schedule_setting :: "SplatNet3Monitor \<Rightarrow> VsMode option \<Rightarrow> VsMatchSetting option" where
  \<comment> \<open>lines 213-224\<close>
  "schedule_setting monitor vm =
     (if map_option vsMode_mode vm = Some ''REGULAR''
        then Option.bind (regular_schedule monitor) regularMatchSetting
      else if map_option vsMode_mode vm = Some ''BANKARA'' then
        (if map_option vsMode_id vm = Some ''VnNNb2RlLTI=''
           then bankara_setting CHALLENGE (anarchy_schedule monitor)
         else if map_option vsMode_id vm = Some ''VnNNb2RlLTUx''
           then bankara_setting OPEN (anarchy_schedule monitor)
         else None)
      else if map_option vsMode_mode vm = Some ''FEST''
        then Option.bind (regular_schedule monitor) regularMatchSetting
      else if map_option vsMode_mode vm = Some ''LEAGUE''
        then Option.bind (league_schedule monitor) leagueMatchSetting
      else if map_option vsMode_mode vm = Some ''X_MATCH''
        then Option.bind (x_schedule monitor) xMatchSetting
      else None)"

fun join :: "string \<Rightarrow> string list \<Rightarrow> string" where
  \<comment> \<open>\<^verbatim>\<open>Array.prototype.join\<close>\<close>
  "join sep [] = []"
| "join sep [x] = x"
| "join sep (x # y # ys) = x @ sep @ join sep (y # ys)"

definition prod_resource :: "string \<Rightarrow> string option" where
  \<comment> \<open>\<^verbatim>\<open>pathname.match(/^\/resources\/prod\/(.+)$/)\<close>, the group: the dot matches no line
      terminator and \<^verbatim>\<open>$\<close> only the end of the input\<close>
  "prod_resource p =
     (let pre = ''/resources/prod/''; rest = drop (length pre) p
      in if take (length pre) p = pre \<and> rest \<noteq> [] \<and>
            CHR 0x0A \<notin> set rest \<and> CHR 0x0D \<notin> set rest
         then Some rest else None)"

text \<open>
  The two enrichments of \<^verbatim>\<open>callback\<close> (lines 226-246 and 248-265), each on the activity
  that the code mutates in place: the result is the activity as the block leaves it and
  the exception that ends it, if any. \<open>enc\<close> is the percent-encoding of
  \<^verbatim>\<open>URLSearchParams\<close>, \<open>pathname\<close> is \<^verbatim>\<open>new URL(u).pathname\<close> (\<open>None\<close>: the URL is
  invalid and the constructor throws), \<open>product\<close> the constant of
  \<^verbatim>\<open>util/product.js\<close>.
\<close>

definition vs_enrich ::
  "(string \<Rightarrow> string) \<Rightarrow> string \<Rightarrow> SplatNet3Monitor \<Rightarrow> Friend \<Rightarrow> 'a Presence_scheme
    \<Rightarrow> 'a Presence_scheme \<times> error option" where
  "vs_enrich enc product monitor f activity =
     (case vsMode f of
        None \<Rightarrow> (activity, None)
      | Some vm \<Rightarrow>
          if onlineState f = VS_MODE_MATCHING \<or> onlineState f = VS_MODE_FIGHTING then
            (let shown = (case mode_name (vsMode f) of Some n \<Rightarrow> n | None \<Rightarrow> vsMode_name vm);
                 a1 = activity\<lparr>details := Some
                        (shown
                         @ (case schedule_setting monitor (vsMode f) of
                              Some st \<Rightarrow> '' - '' @ vsRule_name st
                            | None \<Rightarrow> [])
                         @ (if onlineState f = VS_MODE_MATCHING then '' (matching)'' else []))\<rparr>
             in case schedule_setting monitor (vsMode f) of
                  None \<Rightarrow>
                    (a1\<lparr>smallImageKey := mode_image (vsMode f), smallImageText := Some shown\<rparr>,
                     None)
                | Some st \<Rightarrow>
                    (case vsStages st of
                       s0 # s1 # _ \<Rightarrow>
                         (a1\<lparr>largeImageKey := Some
                               (''https://fancy.org.uk/api/nxapi/s3/image?''
                                @ ''a='' @ enc (stage_id s0) @ ''&b='' @ enc (stage_id s1)
                                @ ''&v='' @ enc ''2022092104''),
                             largeImageText := Some
                               (join ''/'' (map stage_name (vsStages st)) @ '' | '' @ product),
                             smallImageKey := mode_image (vsMode f),
                             smallImageText := Some shown\<rparr>,
                          None)
                     | _ \<Rightarrow> (a1, Some TypeError)))
          else (activity, None))"

definition coop_enrich ::
  "(string \<Rightarrow> string option) \<Rightarrow> string \<Rightarrow> SplatNet3Monitor \<Rightarrow> Friend \<Rightarrow> 'a Presence_scheme
    \<Rightarrow> 'a Presence_scheme \<times> error option" where
  "coop_enrich pathname product monitor f activity =
     (if onlineState f = COOP_MODE_MATCHING \<or> onlineState f = COOP_MODE_FIGHTING then
        (let a1 = activity\<lparr>details := Some
                    (''Salmon Run''
                     @ (if onlineState f = COOP_MODE_MATCHING then '' (matching)'' else []))\<rparr>
         in case coop_schedule monitor of
              None \<Rightarrow> (a1, None)
            | Some c \<Rightarrow>
                (case pathname (coopStage_image_url c) of
                   None \<Rightarrow> (a1, Some TypeError)
                 | Some p \<Rightarrow>
                     (case prod_resource p of
                        None \<Rightarrow> (a1, None)
                      | Some r \<Rightarrow>
                          (a1\<lparr>largeImageKey := Some (''https://splatoon3.ink/assets/splatnet/'' @ r),
                              largeImageText := Some (coopStage_name c @ '' | '' @ product)\<rparr>,
                           None))))
      else (activity, None))"

definition context_monitor :: "DiscordPresenceContext option \<Rightarrow> SplatNet3Monitor option" where
  \<comment> \<open>line 191: \<^verbatim>\<open>context?.monitors?.find(m => m instanceof SplatNet3Monitor)\<close>\<close>
  "context_monitor context = Option.bind (Option.bind context monitors) find_monitor"

text \<open>
  \<^verbatim>\<open>callback\<close> (lines 190-266). The argument \<^verbatim>\<open>game\<close> is not read. The function returns
  nothing; its effect is on \<^verbatim>\<open>activity\<close>.
\<close>

definition callback ::
  "(string \<Rightarrow> string) \<Rightarrow> (string \<Rightarrow> string option) \<Rightarrow> string
    \<Rightarrow> 'a Presence_scheme \<Rightarrow> 'g \<Rightarrow> DiscordPresenceContext option
    \<Rightarrow> 'a Presence_scheme \<times> error option" where
  "callback enc pathname product activity game context =
     (case context_monitor context of
        None \<Rightarrow> (activity, None)
      | Some monitor \<Rightarrow>
          (case friend monitor of
             None \<Rightarrow> (activity, None)
           | Some f \<Rightarrow>
               (case vs_enrich enc product monitor f activity of
                  (a1, Some e) \<Rightarrow> (a1, Some e)
                | (a1, None) \<Rightarrow> coop_enrich pathname product monitor f a1)))"

section \<open>Example data\<close>

text \<open>
  Concrete values for the examples below: the platform functions on the strings that
  occur in them, one schedule response, and a monitor that tracks one friend.
\<close>

definition example_b64 :: "string \<Rightarrow> string" where
  "example_b64 s =
     (case map_of
        [(''Friend-a1b2c3d4e5f60718'', ''RnJpZW5kLWExYjJjM2Q0ZTVmNjA3MTg=''),
         (''Friend-0f1e2d3c4b5a6978'', ''RnJpZW5kLTBmMWUyZDNjNGI1YTY5Nzg=''),
         (''Friend-null'', ''RnJpZW5kLW51bGw='')] s of
        Some e \<Rightarrow> e
      | None \<Rightarrow> [])"

definition example_enc :: "string \<Rightarrow> string" where
  \<comment> \<open>percent-encoding, on letters, digits and the equals sign\<close>
  "example_enc s = concat (map (\<lambda>c. if c = CHR ''='' then ''%3D'' else [c]) s)"

definition example_pathname :: "string \<Rightarrow> string option" where
  \<comment> \<open>the path of an \<^verbatim>\<open>https\<close> URL without query; anything else is invalid\<close>
  "example_pathname u =
     (if take 8 u = ''https://'' then Some (dropWhile (\<lambda>c. c \<noteq> CHR ''/'') (drop 8 u))
      else None)"

definition time_0300 :: int where
  \<comment> \<open>2022-09-21T03:00:00Z\<close>
  "time_0300 = 1663729200000"

definition stages_a :: "VsStage list" where
  "stages_a =
     [\<lparr>stage_id = ''VnNTdGFnZS0x'', stage_name = ''Scorch Gorge''\<rparr>,
      \<lparr>stage_id = ''VnNTdGFnZS0y'', stage_name = ''Eeltail Alley''\<rparr>]"

definition turf_war :: VsMatchSetting where
  "turf_war = \<lparr>vsRule_name = ''Turf War'', vsStages = stages_a\<rparr>"

definition tricolor :: VsMatchSetting where
  "tricolor = \<lparr>vsRule_name = ''Tricolor Turf War'', vsStages = stages_a\<rparr>"

definition rainmaker :: VsMatchSetting where
  "rainmaker = \<lparr>vsRule_name = ''Rainmaker'', vsStages = stages_a\<rparr>"

definition tower_control :: VsMatchSetting where
  "tower_control = \<lparr>vsRule_name = ''Tower Control'', vsStages = stages_a\<rparr>"

definition regular_past :: RegularSchedule where
  "regular_past =
     \<lparr>startTime = ''2022-09-21T00:00:00Z'', endTime = ''2022-09-21T02:00:00Z'',
      regularMatchSetting = Some turf_war\<rparr>"

definition regular_now :: RegularSchedule where
  "regular_now =
     \<lparr>startTime = ''2022-09-21T02:00:00Z'', endTime = ''2022-09-21T04:00:00Z'',
      regularMatchSetting = Some turf_war\<rparr>"

definition fest_now :: FestSchedule where
  "fest_now =
     \<lparr>startTime = ''2022-09-21T02:00:00Z'', endTime = ''2022-09-21T04:00:00Z'',
      festMatchSetting = Some tricolor\<rparr>"

definition x_past :: XSchedule where
  "x_past =
     \<lparr>startTime = ''2022-09-21T00:00:00Z'', endTime = ''2022-09-21T02:00:00Z'',
      xMatchSetting = Some tower_control\<rparr>"

definition x_now :: XSchedule where
  "x_now =
     \<lparr>startTime = ''2022-09-21T02:00:00Z'', endTime = ''2022-09-21T04:00:00Z'',
      xMatchSetting = Some rainmaker\<rparr>"

definition fresh_schedules :: StageScheduleResult where
  "fresh_schedules =
     \<lparr>regularSchedules = [regular_past, regular_now], bankaraSchedules = [],
      festSchedules = [fest_now], leagueSchedules = [], xSchedules = [x_past, x_now],
      coopSchedules = []\<rparr>"

definition stale_schedules :: StageScheduleResult where
  "stale_schedules =
     \<lparr>regularSchedules = [regular_past], bankaraSchedules = [],
      festSchedules = [], leagueSchedules = [], xSchedules = [x_past],
      coopSchedules = []\<rparr>"

definition fest_friend :: Friend where
  "fest_friend =
     \<lparr>friend_id = ''RnJpZW5kLWExYjJjM2Q0ZTVmNjA3MTg='', onlineState = VS_MODE_FIGHTING,
      vsMode = Some \<lparr>vsMode_mode = ''FEST'', vsMode_id = ''VnNNb2RlLTY='',
                     vsMode_name = ''Splatfest Battle''\<rparr>\<rparr>"

definition x_friend :: Friend where
  "x_friend =
     \<lparr>friend_id = ''RnJpZW5kLWExYjJjM2Q0ZTVmNjA3MTg='', onlineState = VS_MODE_MATCHING,
      vsMode = Some \<lparr>vsMode_mode = ''X_MATCH'', vsMode_id = ''VnNNb2RlLTM='',
                     vsMode_name = ''X Battle''\<rparr>\<rparr>"

definition idle_friend :: Friend where
  "idle_friend =
     \<lparr>friend_id = ''RnJpZW5kLWExYjJjM2Q0ZTVmNjA3MTg='', onlineState = OtherOnlineState ''ONLINE'',
      vsMode = None\<rparr>"

definition example_config :: SplatNet3MonitorConfig where
  "example_config =
     \<lparr>storage = 1, na_session_token = ''session-token'', znc_proxy_url = None,
      allow_fetch_token = True, friend_nsaid = Some ''a1b2c3d4e5f60718''\<rparr>"

definition example_api :: SplatNet3Api where
  "example_api = \<lparr>getFriendsRefetch = Inr [fest_friend], getSchedules = Inr fresh_schedules\<rparr>"

definition example_monitor :: SplatNet3Monitor where
  "example_monitor =
     \<lparr>config = Some example_config, presence_user = None, splatnet = Some example_api,
      cached_friends = Some [fest_friend], cached_schedules = Some fresh_schedules,
      friend = None, regular_schedule = None, anarchy_schedule = None, fest_schedule = None,
      league_schedule = None, x_schedule = None, coop_schedule = None,
      loop_state = Running, skip_interval = False\<rparr>"

definition base_activity :: Presence where
  "base_activity =
     \<lparr>state = Some ''Playing online'', details = None, largeImageKey = None,
      largeImageText = None, smallImageKey = None, smallImageText = None\<rparr>"

definition context_of :: "SplatNet3Monitor \<Rightarrow> DiscordPresenceContext option" where
  "context_of m = Some \<lparr>monitors = Some [OtherMonitor, SplatNet3 m]\<rparr>"

definition stale_monitor :: SplatNet3Monitor where
  \<comment> \<open>the cache holds only rotations that have ended; the friends are to be fetched\<close>
  "stale_monitor = example_monitor\<lparr>cached_friends := None, cached_schedules := Some stale_schedules\<rparr>"

definition tracking_monitor :: SplatNet3Monitor where
  \<comment> \<open>after a cycle: a friend in an X Battle and the selections of the cache\<close>
  "tracking_monitor =
     example_monitor\<lparr>cached_friends := None, friend := Some x_friend,
       regular_schedule := Some regular_now, fest_schedule := Some fest_now,
       x_schedule := Some x_now\<rparr>"

definition example_policy :: "string \<Rightarrow> ErrorResult" where
  "example_policy err =
     (if err = ''ETIMEDOUT'' then RETRY
      else if err = ''invalid_grant'' then STOP
      else IGNORE)"

definition splatfest_schedules :: StageScheduleResult where
  \<comment> \<open>during a Splatfest: the regular rotation carries no match setting\<close>
  "splatfest_schedules =
     \<lparr>regularSchedules = [regular_now\<lparr>regularMatchSetting := None\<rparr>], bankaraSchedules = [],
      festSchedules = [fest_now], leagueSchedules = [], xSchedules = [],
      coopSchedules = []\<rparr>"

definition splatfest_monitor :: SplatNet3Monitor where
  "splatfest_monitor = example_monitor\<lparr>cached_schedules := Some splatfest_schedules\<rparr>"

definition x_monitor :: SplatNet3Monitor where
  \<comment> \<open>before a cycle: the friend list to read holds a friend waiting for an X Battle\<close>
  "x_monitor = example_monitor\<lparr>cached_friends := Some [x_friend]\<rparr>"

definition x_exhausted_monitor :: SplatNet3Monitor where
  \<comment> \<open>the cache has a current regular rotation and only a past X rotation\<close>
  "x_exhausted_monitor =
     example_monitor\<lparr>cached_schedules := Some (fresh_schedules\<lparr>xSchedules := [x_past]\<rparr>)\<rparr>"

definition coop_friend :: Friend where
  \<comment> \<open>a second friend, with the account id 0f1e2d3c4b5a6978\<close>
  "coop_friend =
     \<lparr>friend_id = ''RnJpZW5kLTBmMWUyZDNjNGI1YTY5Nzg='', onlineState = COOP_MODE_FIGHTING,
      vsMode = None\<rparr>"

definition two_friends_monitor :: SplatNet3Monitor where
  "two_friends_monitor = example_monitor\<lparr>cached_friends := Some [fest_friend, coop_friend]\<rparr>"

definition presence_monitor :: SplatNet3Monitor where
  \<comment> \<open>the user of the presence is the friend that the configuration names\<close>
  "presence_monitor =
     two_friends_monitor\<lparr>presence_user := Some ''a1b2c3d4e5f60718''\<rparr>"

definition offline_monitor :: SplatNet3Monitor where
  \<comment> \<open>a stale cache, and an API whose request for the friend list is rejected\<close>
  "offline_monitor =
     stale_monitor\<lparr>splatnet := Some \<lparr>getFriendsRefetch = Inl (Rejected ''ETIMEDOUT''),
                                      getSchedules = Inr fresh_schedules\<rparr>\<rparr>"

section \<open>Properties of the selection\<close>

lemmas example_defs = example_times_def rotation_a_def rotation_b_def rotation_long_def

lemma getSchedule_find: "getSchedule tm now xs = List.find (covers_now tm now) xs"
  by (induction xs) (auto simp: covers_now_def js_ge_def js_lt_def split: option.splits)

lemma covers_now_valid:
  "tm (startTime s) = Some a \<Longrightarrow> tm (endTime s) = Some b \<Longrightarrow>
   covers_now tm now s \<longleftrightarrow> a < now \<and> now \<le> b"
  by (simp add: covers_now_def)

text \<open>
  Claim C1, as the code has it. \<open>getSchedule\<close> returns the first entry, in input order,
  whose interval covers \<open>now\<close> in the sense \<open>start < now \<le> end\<close> (a time that does not
  parse passes its comparison), and returns nothing exactly when no entry does. The
  interval is open at the start and closed at the end: an entry that starts at \<open>now\<close>
  is passed over, one that ends at \<open>now\<close> is still selected.
\<close>

theorem getSchedule_first_covering:
  "(getSchedule tm now xs = None \<longleftrightarrow> (\<forall>s \<in> set xs. \<not> covers_now tm now s)) \<and>
   (\<forall>s. getSchedule tm now xs = Some s \<longleftrightarrow>
      (\<exists>i < length xs. xs ! i = s \<and> covers_now tm now s \<and>
         (\<forall>j < i. \<not> covers_now tm now (xs ! j))))"
proof (intro conjI allI)
  show "getSchedule tm now xs = None \<longleftrightarrow> (\<forall>s \<in> set xs. \<not> covers_now tm now s)"
    by (auto simp: getSchedule_find find_None_iff)
next
  fix s
  show "getSchedule tm now xs = Some s \<longleftrightarrow>
      (\<exists>i < length xs. xs ! i = s \<and> covers_now tm now s \<and>
         (\<forall>j < i. \<not> covers_now tm now (xs ! j)))"
    unfolding getSchedule_find find_Some_iff by auto
qed

theorem getSchedule_first_covering_witness:
  "getSchedule example_times 1663725600000 [rotation_b, rotation_a] = Some rotation_a \<and>
   covers_now example_times 1663725600000 rotation_a \<and>
   \<not> covers_now example_times 1663725600000 rotation_b"
proof -
  let ?xs = "[rotation_b, rotation_a]"
  have c: "covers_now example_times 1663725600000 rotation_a"
    and n: "\<not> covers_now example_times 1663725600000 rotation_b"
    by (simp_all add: covers_now_def example_defs)
  have "\<exists>i < length ?xs. ?xs ! i = rotation_a \<and> covers_now example_times 1663725600000 rotation_a \<and>
         (\<forall>j < i. \<not> covers_now example_times 1663725600000 (?xs ! j))"
    using c n by (intro exI[of _ 1]) (simp add: less_Suc_eq)
  then have "getSchedule example_times 1663725600000 ?xs = Some rotation_a"
    using getSchedule_first_covering [of example_times 1663725600000 ?xs] by blast
  then show ?thesis using c n by simp
qed

text \<open>
  Claim C1 as stated, with the interval \<open>[start, end)\<close>, fails at both ends of a
  rotation: at its start time the code selects nothing where the specification selects
  the entry, and at its end time the code selects the entry where the specification
  selects nothing.
\<close>

theorem getSchedule_interval_counterexample:
  "getSchedule example_times 1663718400000 [rotation_a] = None \<and>
   spec_active_selection example_times 1663718400000 [rotation_a] = Some rotation_a \<and>
   getSchedule example_times 1663725600000 [rotation_a] = Some rotation_a \<and>
   spec_active_selection example_times 1663725600000 [rotation_a] = None"
  by (simp add: spec_active_selection_def spec_contains_now_def js_ge_def js_lt_def example_defs)

text \<open>
  Claim C2 as stated fails: the code does not order the entries by start time. With two
  entries that both cover \<open>now\<close>, each of the two orderings of the same set returns its
  own first entry, and the ordering that lists the later start first returns the later
  start.
\<close>

theorem getSchedule_order_counterexample:
  "set [rotation_b, rotation_long] = set [rotation_long, rotation_b] \<and>
   getSchedule example_times 1663729200000 [rotation_b, rotation_long] = Some rotation_b \<and>
   getSchedule example_times 1663729200000 [rotation_long, rotation_b] = Some rotation_long \<and>
   rotation_b \<noteq> rotation_long \<and>
   example_times (startTime rotation_long) = Some 1663718400000 \<and>
   example_times (startTime rotation_b) = Some 1663725600000"
  by (simp add: js_ge_def js_lt_def example_defs insert_commute)

text \<open>
  Claim C2, as the code has it. The scan is in input order. Two orderings of the same
  set of entries give the same selection whenever at most one entry of the set covers
  \<open>now\<close>.
\<close>

theorem getSchedule_order_independent:
  assumes same: "set xs = set ys"
    and one: "\<forall>a \<in> set xs. \<forall>b \<in> set xs. covers_now tm now a \<and> covers_now tm now b \<longrightarrow> a = b"
  shows "getSchedule tm now xs = getSchedule tm now ys"
proof (cases "List.find (covers_now tm now) xs")
  case None
  then have "\<forall>s \<in> set ys. \<not> covers_now tm now s"
    using same by (auto simp: find_None_iff)
  then have "List.find (covers_now tm now) ys = None"
    by (auto simp: find_None_iff)
  with None show ?thesis by (simp add: getSchedule_find)
next
  case (Some a)
  then have a: "a \<in> set xs" "covers_now tm now a"
    by (auto simp: find_Some_iff)
  then have "List.find (covers_now tm now) ys \<noteq> None"
    using same by (auto simp: find_None_iff)
  then obtain b where b: "List.find (covers_now tm now) ys = Some b" by auto
  then have "b \<in> set ys" "covers_now tm now b"
    by (auto simp: find_Some_iff)
  with a one same have "a = b" by blast
  with Some b show ?thesis by (simp add: getSchedule_find)
qed

theorem getSchedule_order_independent_witness:
  "set [rotation_a, rotation_b] = set [rotation_b, rotation_a] \<and>
   getSchedule example_times 1663729200000 [rotation_a, rotation_b] =
     getSchedule example_times 1663729200000 [rotation_b, rotation_a] \<and>
   getSchedule example_times 1663729200000 [rotation_b, rotation_a] = Some rotation_b"
proof -
  have s: "set [rotation_a, rotation_b] = set [rotation_b, rotation_a]"
    by (simp add: insert_commute)
  have o: "\<forall>a \<in> set [rotation_a, rotation_b]. \<forall>b \<in> set [rotation_a, rotation_b].
      covers_now example_times 1663729200000 a \<and> covers_now example_times 1663729200000 b \<longrightarrow> a = b"
    by (simp add: covers_now_def example_defs)
  have "getSchedule example_times 1663729200000 [rotation_b, rotation_a] = Some rotation_b"
    by (simp add: js_ge_def js_lt_def example_defs)
  then show ?thesis using s getSchedule_order_independent [OF s o] by simp
qed

text \<open>
  Claim C10. \<open>getSchedule\<close> has no failing branch: on every list it returns nothing or
  an element of the list, and on the empty list it returns nothing.
\<close>

theorem getSchedule_total:
  fixes xs :: "'a schedule_scheme list"
  shows "getSchedule tm now ([] :: 'a schedule_scheme list) = None \<and>
   (getSchedule tm now xs = None \<or> (\<exists>s \<in> set xs. getSchedule tm now xs = Some s))"
  by (cases "List.find (covers_now tm now) xs") (auto simp: getSchedule_find find_Some_iff)

theorem getSchedule_total_witness:
  "getSchedule example_times 1663729200000 ([] :: schedule list) = None \<and>
   getSchedule example_times 1663729200000 [rotation_a, rotation_b] \<noteq> None \<and>
   (\<exists>s \<in> set [rotation_a, rotation_b].
      getSchedule example_times 1663729200000 [rotation_a, rotation_b] = Some s)"
proof -
  have "getSchedule example_times 1663729200000 [rotation_a, rotation_b] \<noteq> None"
    by (simp add: js_ge_def js_lt_def example_defs)
  then show ?thesis
    using getSchedule_total [of example_times 1663729200000 "[rotation_a, rotation_b]"]
    by (auto simp del: getSchedule.simps)
qed

section \<open>Reconfiguration and errors\<close>

lemmas monitor_example_defs =
  example_monitor_def example_config_def example_api_def fresh_schedules_def stale_schedules_def
  regular_past_def regular_now_def fest_now_def x_past_def x_now_def
  turf_war_def tricolor_def rainmaker_def tower_control_def stages_a_def
  fest_friend_def x_friend_def idle_friend_def stale_monitor_def tracking_monitor_def
  time_0300_def base_activity_def context_of_def

text \<open>
  Claim C4. \<open>onUpdateConfig\<close> stores the new configuration (and asks the loop to skip
  the current interval) and returns true exactly when the new configuration is
  equivalent to the stored one: both present or both absent, with equal storage,
  session token, proxy URL and fetch permission. Otherwise the monitor is left as it
  was and the result is false.
\<close>

theorem onUpdateConfig_equivalent:
  "onUpdateConfig new m =
     (if config_equivalent new (config m)
      then (m\<lparr>config := new, skip_interval := True\<rparr>, True)
      else (m, False))"
  by (cases new; cases "config m")
     (auto simp: onUpdateConfig_def config_equivalent_def skipIntervalInCurrentLoop_def)

theorem onUpdateConfig_equivalent_witness:
  "onUpdateConfig (Some (example_config\<lparr>friend_nsaid := None\<rparr>)) example_monitor =
     (example_monitor\<lparr>config := Some (example_config\<lparr>friend_nsaid := None\<rparr>),
                      skip_interval := True\<rparr>, True) \<and>
   onUpdateConfig (Some (example_config\<lparr>na_session_token := ''other-token''\<rparr>)) example_monitor =
     (example_monitor, False) \<and>
   onUpdateConfig None example_monitor = (example_monitor, False)"
  using onUpdateConfig_equivalent [of "Some (example_config\<lparr>friend_nsaid := None\<rparr>)" example_monitor]
    onUpdateConfig_equivalent [of "Some (example_config\<lparr>na_session_token := ''other-token''\<rparr>)" example_monitor]
    onUpdateConfig_equivalent [of None example_monitor]
  by (simp add: config_equivalent_def example_monitor_def example_config_def)

lemma update_schedules_friend: "friend (fst (update_schedules tm clk m)) = friend m"
  by (simp add: update_schedules_def select_others_def Let_def split: option.splits sum.splits)

lemma friend_node_id_tracked:
  "config m = Some c \<Longrightarrow> friend_node_id b64 m = b64 (''Friend-'' @ tracked_nsaid c (presence_user m))"
  by (simp add: friend_node_id_def get_friend_nsaid_def tracked_nsaid_def split: option.splits)

lemma update_friend:
  "friend (fst (update b64 tm clk m)) =
     (case friends_read m of
        Some fs \<Rightarrow> List.find (\<lambda>f. friend_id f = friend_node_id b64 m) fs
      | None \<Rightarrow> (if splatnet m = None then None else friend m))"
proof -
  have id: "friend_node_id b64 (m\<lparr>cached_friends := None\<rparr>) = friend_node_id b64 m"
    by (simp add: friend_node_id_def get_friend_nsaid_def split: option.splits)
  show ?thesis
    by (simp add: update_def friends_read_def Let_def case_prod_unfold update_schedules_friend id
        split: option.splits sum.splits)
qed

text \<open>
  Claim C9, as the code has it. Two present configurations that agree on storage,
  session token, proxy URL and fetch permission and differ in \<open>friend_nsaid\<close>: the new
  one is accepted in place, the loop keeps its state, and a skip of the current interval
  is requested. The next cycle looks for the friend whose id is the base64 form of
  \<^verbatim>\<open>'Friend-'\<close> followed by the new \<open>friend_nsaid\<close>, or by the user of the presence when
  the new configuration names no friend. The friend the monitor tracks is therefore the
  one this id finds in the friend list, and it stays the same when the id stays the same.
\<close>

theorem onUpdateConfig_friend_nsaid:
  assumes "config m = Some old"
    and "storage new = storage old"
    and "na_session_token new = na_session_token old"
    and "znc_proxy_url new = znc_proxy_url old"
    and "allow_fetch_token new = allow_fetch_token old"
    and "friend_nsaid new \<noteq> friend_nsaid old"
  shows "snd (onUpdateConfig (Some new) m) = True \<and>
         config (fst (onUpdateConfig (Some new) m)) = Some new \<and>
         skip_interval (fst (onUpdateConfig (Some new) m)) = True \<and>
         loop_state (fst (onUpdateConfig (Some new) m)) = loop_state m \<and>
         get_friend_nsaid (fst (onUpdateConfig (Some new) m)) =
           (case friend_nsaid new of Some n \<Rightarrow> Some n | None \<Rightarrow> presence_user m) \<and>
         friend_node_id b64 m = b64 (''Friend-'' @ tracked_nsaid old (presence_user m)) \<and>
         friend_node_id b64 (fst (onUpdateConfig (Some new) m)) =
           b64 (''Friend-'' @ tracked_nsaid new (presence_user m)) \<and>
         (\<forall>fs. friends_read m = Some fs \<longrightarrow>
            friends_read (fst (onUpdateConfig (Some new) m)) = Some fs \<and>
            friend (fst (update b64 tm clk m)) =
              List.find (\<lambda>f. friend_id f = b64 (''Friend-'' @ tracked_nsaid old (presence_user m))) fs \<and>
            friend (fst (update b64 tm clk (fst (onUpdateConfig (Some new) m)))) =
              List.find (\<lambda>f. friend_id f = b64 (''Friend-'' @ tracked_nsaid new (presence_user m))) fs) \<and>
         (tracked_nsaid new (presence_user m) = tracked_nsaid old (presence_user m) \<longrightarrow>
            friend (fst (update b64 tm clk (fst (onUpdateConfig (Some new) m)))) =
              friend (fst (update b64 tm clk m)))"
proof -
  let ?m' = "m\<lparr>config := Some new, skip_interval := True\<rparr>"
  have acc: "onUpdateConfig (Some new) m = (?m', True)"
    using assms by (simp add: onUpdateConfig_def skipIntervalInCurrentLoop_def)
  have getter: "get_friend_nsaid ?m' =
           (case friend_nsaid new of Some n \<Rightarrow> Some n | None \<Rightarrow> presence_user m)"
    by (simp add: get_friend_nsaid_def split: option.splits)
  have old_id: "friend_node_id b64 m = b64 (''Friend-'' @ tracked_nsaid old (presence_user m))"
    using assms(1) by (simp add: friend_node_id_tracked)
  have new_id: "friend_node_id b64 ?m' = b64 (''Friend-'' @ tracked_nsaid new (presence_user m))"
    using friend_node_id_tracked [of ?m' new b64] by simp
  have fr: "friends_read ?m' = friends_read m"
    by (simp add: friends_read_def split: option.splits)
  have look: "\<forall>fs. friends_read m = Some fs \<longrightarrow>
            friends_read ?m' = Some fs \<and>
            friend (fst (update b64 tm clk m)) =
              List.find (\<lambda>f. friend_id f = b64 (''Friend-'' @ tracked_nsaid old (presence_user m))) fs \<and>
            friend (fst (update b64 tm clk ?m')) =
              List.find (\<lambda>f. friend_id f = b64 (''Friend-'' @ tracked_nsaid new (presence_user m))) fs"
    by (simp add: update_friend fr old_id new_id)
  have same: "tracked_nsaid new (presence_user m) = tracked_nsaid old (presence_user m) \<longrightarrow>
            friend (fst (update b64 tm clk ?m')) = friend (fst (update b64 tm clk m))"
  proof
    assume "tracked_nsaid new (presence_user m) = tracked_nsaid old (presence_user m)"
    then have "friend_node_id b64 ?m' = friend_node_id b64 m"
      by (simp add: old_id new_id)
    then show "friend (fst (update b64 tm clk ?m')) = friend (fst (update b64 tm clk m))"
      by (cases "friends_read m"; cases "splatnet m") (simp_all add: update_friend fr)
  qed
  show ?thesis
    using getter old_id new_id look same by (simp add: acc)
qed

lemmas reconfig_example_defs =
  update_def update_schedules_def select_others_def friend_node_id_def
  get_friend_nsaid_def example_b64_def js_ge_def js_lt_def example_times_def
  example_monitor_def example_config_def example_api_def fresh_schedules_def
  regular_past_def regular_now_def fest_now_def x_past_def x_now_def
  fest_friend_def coop_friend_def two_friends_monitor_def presence_monitor_def time_0300_def
  onUpdateConfig_def skipIntervalInCurrentLoop_def

theorem onUpdateConfig_friend_nsaid_witness:
  "snd (onUpdateConfig (Some (example_config\<lparr>friend_nsaid := Some ''0f1e2d3c4b5a6978''\<rparr>))
          two_friends_monitor) = True \<and>
   get_friend_nsaid two_friends_monitor = Some ''a1b2c3d4e5f60718'' \<and>
   get_friend_nsaid
     (fst (onUpdateConfig (Some (example_config\<lparr>friend_nsaid := Some ''0f1e2d3c4b5a6978''\<rparr>))
             two_friends_monitor)) = Some ''0f1e2d3c4b5a6978'' \<and>
   skip_interval
     (fst (onUpdateConfig (Some (example_config\<lparr>friend_nsaid := Some ''0f1e2d3c4b5a6978''\<rparr>))
             two_friends_monitor)) = True \<and>
   friend (fst (update example_b64 example_times (\<lambda>k. time_0300) two_friends_monitor)) =
     Some fest_friend \<and>
   friend (fst (update example_b64 example_times (\<lambda>k. time_0300)
     (fst (onUpdateConfig (Some (example_config\<lparr>friend_nsaid := Some ''0f1e2d3c4b5a6978''\<rparr>))
             two_friends_monitor)))) = Some coop_friend \<and>
   fest_friend \<noteq> coop_friend"
proof -
  let ?new = "example_config\<lparr>friend_nsaid := Some ''0f1e2d3c4b5a6978''\<rparr>"
  have c: "config two_friends_monitor = Some example_config"
    by (simp add: two_friends_monitor_def example_monitor_def)
  have d: "friend_nsaid ?new \<noteq> friend_nsaid example_config"
    by (simp add: example_config_def)
  have g: "get_friend_nsaid two_friends_monitor = Some ''a1b2c3d4e5f60718''"
    by (simp add: get_friend_nsaid_def two_friends_monitor_def example_monitor_def example_config_def)
  have r: "friends_read two_friends_monitor = Some [fest_friend, coop_friend]"
    by (simp add: friends_read_def two_friends_monitor_def)
  have u: "presence_user two_friends_monitor = None"
    by (simp add: two_friends_monitor_def example_monitor_def)
  have t: "tracked_nsaid example_config None = ''a1b2c3d4e5f60718''"
    "tracked_nsaid ?new None = ''0f1e2d3c4b5a6978''"
    by (simp_all add: tracked_nsaid_def example_config_def)
  have f: "List.find (\<lambda>f. friend_id f = example_b64 ''Friend-a1b2c3d4e5f60718'') [fest_friend, coop_friend]
             = Some fest_friend"
    "List.find (\<lambda>f. friend_id f = example_b64 ''Friend-0f1e2d3c4b5a6978'') [fest_friend, coop_friend]
             = Some coop_friend"
    "fest_friend \<noteq> coop_friend"
    by (simp_all add: example_b64_def fest_friend_def coop_friend_def)
  show ?thesis
    using onUpdateConfig_friend_nsaid [OF c _ _ _ _ d, of example_b64 example_times "\<lambda>k. time_0300"]
      g r u t f
    by simp
qed

text \<open>
  Claim C9 as stated fails where the fallback of the getter gives back the old friend:
  the old configuration names the friend that is also the user of the presence, the new
  one names none. The configurations differ in \<open>friend_nsaid\<close> and agree elsewhere, the
  new one is accepted, and the monitor looks for and finds the same friend as before.
\<close>

theorem onUpdateConfig_same_friend_counterexample:
  "config presence_monitor = Some example_config \<and>
   storage (example_config\<lparr>friend_nsaid := None\<rparr>) = storage example_config \<and>
   na_session_token (example_config\<lparr>friend_nsaid := None\<rparr>) = na_session_token example_config \<and>
   znc_proxy_url (example_config\<lparr>friend_nsaid := None\<rparr>) = znc_proxy_url example_config \<and>
   allow_fetch_token (example_config\<lparr>friend_nsaid := None\<rparr>) = allow_fetch_token example_config \<and>
   friend_nsaid (example_config\<lparr>friend_nsaid := None\<rparr>) \<noteq> friend_nsaid example_config \<and>
   snd (onUpdateConfig (Some (example_config\<lparr>friend_nsaid := None\<rparr>)) presence_monitor) = True \<and>
   friend_node_id example_b64
     (fst (onUpdateConfig (Some (example_config\<lparr>friend_nsaid := None\<rparr>)) presence_monitor)) =
     friend_node_id example_b64 presence_monitor \<and>
   friend (fst (update example_b64 example_times (\<lambda>k. time_0300) presence_monitor)) =
     Some fest_friend \<and>
   friend (fst (update example_b64 example_times (\<lambda>k. time_0300)
     (fst (onUpdateConfig (Some (example_config\<lparr>friend_nsaid := None\<rparr>)) presence_monitor)))) =
     Some fest_friend"
  by (simp add: reconfig_example_defs)

text \<open>
  Claim C5. On a Retry verdict \<open>handleError\<close> returns the skip-interval result and the
  monitor is untouched. On a Stop verdict the monitor is disabled and its cached friend
  cleared, the cached schedule set and the six selections are kept, and the activity
  builder then leaves an activity as it is.
\<close>

theorem handleError_retry_stop:
  "(policy err = RETRY \<longrightarrow> handleError policy err m = (m, [], OK_SKIP_INTERVAL)) \<and>
   (policy err = STOP \<longrightarrow>
      handleError policy err m = (m\<lparr>friend := None, loop_state := Disabled\<rparr>, [RefreshPresence], OK) \<and>
      cached_schedules (fst (handleError policy err m)) = cached_schedules m \<and>
      regular_schedule (fst (handleError policy err m)) = regular_schedule m \<and>
      anarchy_schedule (fst (handleError policy err m)) = anarchy_schedule m \<and>
      fest_schedule (fst (handleError policy err m)) = fest_schedule m \<and>
      league_schedule (fst (handleError policy err m)) = league_schedule m \<and>
      x_schedule (fst (handleError policy err m)) = x_schedule m \<and>
      coop_schedule (fst (handleError policy err m)) = coop_schedule m \<and>
      callback enc pathname product activity game
        (Some \<lparr>monitors = Some [SplatNet3 (fst (handleError policy err m))]\<rparr>) = (activity, None))"
  by (simp add: handleError_def disable_def callback_def context_monitor_def)

theorem handleError_retry_stop_witness:
  "example_policy ''ETIMEDOUT'' = RETRY \<and>
   handleError example_policy ''ETIMEDOUT'' tracking_monitor = (tracking_monitor, [], OK_SKIP_INTERVAL) \<and>
   example_policy ''invalid_grant'' = STOP \<and>
   friend tracking_monitor = Some x_friend \<and>
   friend (fst (handleError example_policy ''invalid_grant'' tracking_monitor)) = None \<and>
   loop_state (fst (handleError example_policy ''invalid_grant'' tracking_monitor)) = Disabled \<and>
   x_schedule (fst (handleError example_policy ''invalid_grant'' tracking_monitor)) = Some x_now \<and>
   callback example_enc example_pathname ''nxapi'' base_activity ()
     (Some \<lparr>monitors = Some [SplatNet3 (fst (handleError example_policy ''invalid_grant'' tracking_monitor))]\<rparr>)
     = (base_activity, None)"
proof -
  have r: "example_policy ''ETIMEDOUT'' = RETRY" and s: "example_policy ''invalid_grant'' = STOP"
    by (simp_all add: example_policy_def)
  have f: "friend tracking_monitor = Some x_friend" "x_schedule tracking_monitor = Some x_now"
    by (simp_all add: tracking_monitor_def)
  note a = handleError_retry_stop [of example_policy "''ETIMEDOUT''" tracking_monitor]
  note b = handleError_retry_stop [of example_policy "''invalid_grant''" tracking_monitor
      example_enc example_pathname "''nxapi''" base_activity "()"]
  from a r have 1: "handleError example_policy ''ETIMEDOUT'' tracking_monitor = (tracking_monitor, [], OK_SKIP_INTERVAL)"
    by simp
  from b s have 2: "handleError example_policy ''invalid_grant'' tracking_monitor =
      (tracking_monitor\<lparr>friend := None, loop_state := Disabled\<rparr>, [RefreshPresence], OK)"
    and 3: "callback example_enc example_pathname ''nxapi'' base_activity ()
     (Some \<lparr>monitors = Some [SplatNet3 (fst (handleError example_policy ''invalid_grant'' tracking_monitor))]\<rparr>)
     = (base_activity, None)"
    by blast+
  show ?thesis using r s f 1 3 by (simp add: 2)
qed

section \<open>The refetch of a cycle\<close>

lemma all_in_the_past_no_selection:
  "all_in_the_past tm now r \<Longrightarrow> no_active_selection tm now (Some r)"
proof -
  have past: "list_all (in_the_past tm now) xs \<Longrightarrow> getSchedule tm now xs = None"
    for xs :: "'b schedule_scheme list"
    by (induction xs) (auto simp: in_the_past_def js_lt_def split: option.splits)
  show "all_in_the_past tm now r \<Longrightarrow> no_active_selection tm now (Some r)"
    by (simp add: all_in_the_past_def no_active_selection_def past)
qed

lemma no_active_selection_regular:
  "no_active_selection tm now cache \<Longrightarrow>
   getSchedule tm now (case cache of None \<Rightarrow> [] | Some r \<Rightarrow> regularSchedules r) = None"
  by (cases cache) (simp_all add: no_active_selection_def)

lemma update_schedules_hit:
  assumes "getSchedule tm (clk 0)
             (case cached_schedules m of None \<Rightarrow> [] | Some r \<Rightarrow> regularSchedules r) = Some s"
  shows "update_schedules tm clk m =
           (select_others tm clk (m\<lparr>regular_schedule := Some s\<rparr>), [RefreshPresence], Inr ())"
  using assms by (simp add: update_schedules_def Let_def)

lemma update_schedules_miss:
  assumes "getSchedule tm (clk 0)
             (case cached_schedules m of None \<Rightarrow> [] | Some r \<Rightarrow> regularSchedules r) = None"
  shows "update_schedules tm clk m =
           (case splatnet m of
              None \<Rightarrow> (m\<lparr>regular_schedule := None\<rparr>, [], Inl TypeError)
            | Some api \<Rightarrow>
                (case getSchedules api of
                   Inl e \<Rightarrow> (m\<lparr>regular_schedule := None\<rparr>, [CallGetSchedules], Inl e)
                 | Inr r \<Rightarrow>
                     (select_others tm clk
                        (m\<lparr>cached_schedules := Some r,
                           regular_schedule := getSchedule tm (clk 1) (regularSchedules r)\<rparr>),
                      [CallGetSchedules, RefreshPresence], Inr ())))"
  using assms by (simp add: update_schedules_def Let_def split: option.splits sum.splits)

lemma update_schedules_fetches:
  "count_list (fst (snd (update_schedules tm clk m))) CallGetSchedules \<le> 1"
proof (cases "getSchedule tm (clk 0)
                (case cached_schedules m of None \<Rightarrow> [] | Some r \<Rightarrow> regularSchedules r)")
  case None
  then show ?thesis
    by (simp add: update_schedules_miss split: option.splits sum.splits)
next
  case (Some s)
  then show ?thesis by (simp add: update_schedules_hit)
qed

text \<open>The part of \<open>update\<close> before the schedules (lines 100-106).\<close>

lemma update_friends_failed:
  assumes "cached_friends m = None" "splatnet m = Some api" "getFriendsRefetch api = Inl e"
  shows "update b64 tm clk m = (m, [CallGetFriendsRefetch], Inl e)"
  using assms by (simp add: update_def)

lemma update_friends_done:
  assumes "cached_friends m \<noteq> None \<or> splatnet m = None \<or>
           (\<exists>api fs. splatnet m = Some api \<and> getFriendsRefetch api = Inr fs)"
  shows "\<exists>f pre. CallGetSchedules \<notin> set pre \<and>
           update b64 tm clk m =
             (fst (update_schedules tm clk (m\<lparr>cached_friends := None, friend := f\<rparr>)),
              pre @ fst (snd (update_schedules tm clk (m\<lparr>cached_friends := None, friend := f\<rparr>))),
              snd (snd (update_schedules tm clk (m\<lparr>cached_friends := None, friend := f\<rparr>))))"
proof (cases "cached_friends m")
  case (Some fs)
  then show ?thesis
    by (intro exI[of _ "List.find (\<lambda>f. friend_id f = friend_node_id b64 (m\<lparr>cached_friends := None\<rparr>)) fs"]
          exI[of _ "[]"])
       (simp add: update_def Let_def case_prod_unfold)
next
  case None
  show ?thesis
  proof (cases "splatnet m")
    case no: None
    with None show ?thesis
      by (intro exI[of _ None] exI[of _ "[]"]) (simp add: update_def Let_def case_prod_unfold)
  next
    case (Some api)
    with None assms obtain fs where fs: "getFriendsRefetch api = Inr fs" by auto
    with None Some show ?thesis
      by (intro exI[of _ "List.find (\<lambda>f. friend_id f = friend_node_id b64 (m\<lparr>cached_friends := None\<rparr>)) fs"]
            exI[of _ "[CallGetFriendsRefetch]"])
         (simp add: update_def Let_def case_prod_unfold)
  qed
qed

lemma refetches_le_1: "refetches b64 tm clk m \<le> 1"
proof (cases "cached_friends m \<noteq> None \<or> splatnet m = None \<or>
           (\<exists>api fs. splatnet m = Some api \<and> getFriendsRefetch api = Inr fs)")
  case True
  from update_friends_done [OF True, of b64 tm clk]
  obtain f pre where pre: "CallGetSchedules \<notin> set pre"
    and u: "update b64 tm clk m =
             (fst (update_schedules tm clk (m\<lparr>cached_friends := None, friend := f\<rparr>)),
              pre @ fst (snd (update_schedules tm clk (m\<lparr>cached_friends := None, friend := f\<rparr>))),
              snd (snd (update_schedules tm clk (m\<lparr>cached_friends := None, friend := f\<rparr>))))"
    by blast
  show ?thesis
    using update_schedules_fetches [of tm clk "m\<lparr>cached_friends := None, friend := f\<rparr>"] pre
    by (simp add: refetches_def u)
next
  case False
  then obtain api e where "cached_friends m = None" "splatnet m = Some api" "getFriendsRefetch api = Inl e"
    by (cases "splatnet m"; cases "getFriendsRefetch (the (splatnet m))") auto
  then show ?thesis
    by (simp add: refetches_def update_friends_failed)
qed


lemma refetches_exact:
  "refetches b64 tm clk m =
     (if reaches_refetch m \<and> regular_selection tm (clk 0) (cached_schedules m) = None
      then 1 else 0)"
  by (simp add: refetches_def update_def update_schedules_def reaches_refetch_def
      regular_selection_def Let_def case_prod_unfold
      split: option.splits sum.splits)

lemma update_normal_refetched:
  assumes "snd (snd (update b64 tm clk m)) = Inr ()"
    and "regular_selection tm (clk 0) (cached_schedules m) = None"
  shows "reaches_refetch m"
  using assms
  by (simp add: update_def update_schedules_def reaches_refetch_def
      regular_selection_def Let_def case_prod_unfold
      split: option.splits sum.splits if_splits)

lemma update_after_refetch:
  assumes "reaches_refetch m" "regular_selection tm (clk 0) (cached_schedules m) = None"
    and "splatnet m = Some api"
  shows "case getSchedules api of
           Inr r \<Rightarrow>
             snd (snd (update b64 tm clk m)) = Inr () \<and>
             cached_schedules (fst (update b64 tm clk m)) = Some r \<and>
             regular_schedule (fst (update b64 tm clk m)) = getSchedule tm (clk 1) (regularSchedules r) \<and>
             anarchy_schedule (fst (update b64 tm clk m)) = getSchedule tm (clk 2) (bankaraSchedules r) \<and>
             fest_schedule (fst (update b64 tm clk m)) = getSchedule tm (clk 3) (festSchedules r) \<and>
             league_schedule (fst (update b64 tm clk m)) = getSchedule tm (clk 4) (leagueSchedules r) \<and>
             x_schedule (fst (update b64 tm clk m)) = getSchedule tm (clk 5) (xSchedules r) \<and>
             coop_schedule (fst (update b64 tm clk m)) = getSchedule tm (clk 6) (coopSchedules r)
         | Inl e \<Rightarrow>
             snd (snd (update b64 tm clk m)) = Inl e \<and>
             regular_schedule (fst (update b64 tm clk m)) = None"
  using assms
  by (simp add: update_def update_schedules_def select_others_def reaches_refetch_def
      regular_selection_def Let_def case_prod_unfold
      split: option.splits sum.splits)

text \<open>
  Claim C3, as the code has it. No cycle asks for the schedules more than once. It asks
  exactly once precisely when it gets as far as the request (the API object is there and
  the friend list is cached or fetched) and the cached set gives no regular selection,
  which is so when there is no cached set or no kind has an active selection. The six
  selections it settles on are then those of the response it has just fetched; when the
  request fails, the cycle ends with that failure. A cycle that finds no regular
  selection and ends normally has asked exactly once.
\<close>

theorem update_refetch_once:
  "refetches b64 tm clk m \<le> 1 \<and>
   (refetches b64 tm clk m = 1 \<longleftrightarrow>
      reaches_refetch m \<and> regular_selection tm (clk 0) (cached_schedules m) = None) \<and>
   (no_active_selection tm (clk 0) (cached_schedules m) \<and> reaches_refetch m \<longrightarrow>
      refetches b64 tm clk m = 1) \<and>
   (snd (snd (update b64 tm clk m)) = Inr () \<and>
    regular_selection tm (clk 0) (cached_schedules m) = None \<longrightarrow>
      refetches b64 tm clk m = 1) \<and>
   (reaches_refetch m \<and> regular_selection tm (clk 0) (cached_schedules m) = None \<longrightarrow>
      (\<forall>api r. splatnet m = Some api \<and> getSchedules api = Inr r \<longrightarrow>
         snd (snd (update b64 tm clk m)) = Inr () \<and>
         cached_schedules (fst (update b64 tm clk m)) = Some r \<and>
         regular_schedule (fst (update b64 tm clk m)) = getSchedule tm (clk 1) (regularSchedules r) \<and>
         anarchy_schedule (fst (update b64 tm clk m)) = getSchedule tm (clk 2) (bankaraSchedules r) \<and>
         fest_schedule (fst (update b64 tm clk m)) = getSchedule tm (clk 3) (festSchedules r) \<and>
         league_schedule (fst (update b64 tm clk m)) = getSchedule tm (clk 4) (leagueSchedules r) \<and>
         x_schedule (fst (update b64 tm clk m)) = getSchedule tm (clk 5) (xSchedules r) \<and>
         coop_schedule (fst (update b64 tm clk m)) = getSchedule tm (clk 6) (coopSchedules r)) \<and>
      (\<forall>api e. splatnet m = Some api \<and> getSchedules api = Inl e \<longrightarrow>
         snd (snd (update b64 tm clk m)) = Inl e \<and>
         regular_schedule (fst (update b64 tm clk m)) = None))"
proof (intro conjI)
  show "refetches b64 tm clk m \<le> 1" by (simp add: refetches_exact)
  show "refetches b64 tm clk m = 1 \<longleftrightarrow>
      reaches_refetch m \<and> regular_selection tm (clk 0) (cached_schedules m) = None"
    by (simp add: refetches_exact)
  show "no_active_selection tm (clk 0) (cached_schedules m) \<and> reaches_refetch m \<longrightarrow>
      refetches b64 tm clk m = 1"
    using no_active_selection_regular [of tm "clk 0" "cached_schedules m"]
    by (simp add: refetches_exact regular_selection_def)
  show "snd (snd (update b64 tm clk m)) = Inr () \<and>
    regular_selection tm (clk 0) (cached_schedules m) = None \<longrightarrow>
      refetches b64 tm clk m = 1"
    using update_normal_refetched [of b64 tm clk m] by (simp add: refetches_exact)
  show "reaches_refetch m \<and> regular_selection tm (clk 0) (cached_schedules m) = None \<longrightarrow>
      (\<forall>api r. splatnet m = Some api \<and> getSchedules api = Inr r \<longrightarrow>
         snd (snd (update b64 tm clk m)) = Inr () \<and>
         cached_schedules (fst (update b64 tm clk m)) = Some r \<and>
         regular_schedule (fst (update b64 tm clk m)) = getSchedule tm (clk 1) (regularSchedules r) \<and>
         anarchy_schedule (fst (update b64 tm clk m)) = getSchedule tm (clk 2) (bankaraSchedules r) \<and>
         fest_schedule (fst (update b64 tm clk m)) = getSchedule tm (clk 3) (festSchedules r) \<and>
         league_schedule (fst (update b64 tm clk m)) = getSchedule tm (clk 4) (leagueSchedules r) \<and>
         x_schedule (fst (update b64 tm clk m)) = getSchedule tm (clk 5) (xSchedules r) \<and>
         coop_schedule (fst (update b64 tm clk m)) = getSchedule tm (clk 6) (coopSchedules r)) \<and>
      (\<forall>api e. splatnet m = Some api \<and> getSchedules api = Inl e \<longrightarrow>
         snd (snd (update b64 tm clk m)) = Inl e \<and>
         regular_schedule (fst (update b64 tm clk m)) = None)"
  proof (rule impI)
    assume h: "reaches_refetch m \<and> regular_selection tm (clk 0) (cached_schedules m) = None"
    have ok: "\<forall>api r. splatnet m = Some api \<and> getSchedules api = Inr r \<longrightarrow>
         snd (snd (update b64 tm clk m)) = Inr () \<and>
         cached_schedules (fst (update b64 tm clk m)) = Some r \<and>
         regular_schedule (fst (update b64 tm clk m)) = getSchedule tm (clk 1) (regularSchedules r) \<and>
         anarchy_schedule (fst (update b64 tm clk m)) = getSchedule tm (clk 2) (bankaraSchedules r) \<and>
         fest_schedule (fst (update b64 tm clk m)) = getSchedule tm (clk 3) (festSchedules r) \<and>
         league_schedule (fst (update b64 tm clk m)) = getSchedule tm (clk 4) (leagueSchedules r) \<and>
         x_schedule (fst (update b64 tm clk m)) = getSchedule tm (clk 5) (xSchedules r) \<and>
         coop_schedule (fst (update b64 tm clk m)) = getSchedule tm (clk 6) (coopSchedules r)"
    proof (intro allI impI)
      fix api r
      assume a: "splatnet m = Some api \<and> getSchedules api = Inr r"
      show "snd (snd (update b64 tm clk m)) = Inr () \<and>
         cached_schedules (fst (update b64 tm clk m)) = Some r \<and>
         regular_schedule (fst (update b64 tm clk m)) = getSchedule tm (clk 1) (regularSchedules r) \<and>
         anarchy_schedule (fst (update b64 tm clk m)) = getSchedule tm (clk 2) (bankaraSchedules r) \<and>
         fest_schedule (fst (update b64 tm clk m)) = getSchedule tm (clk 3) (festSchedules r) \<and>
         league_schedule (fst (update b64 tm clk m)) = getSchedule tm (clk 4) (leagueSchedules r) \<and>
         x_schedule (fst (update b64 tm clk m)) = getSchedule tm (clk 5) (xSchedules r) \<and>
         coop_schedule (fst (update b64 tm clk m)) = getSchedule tm (clk 6) (coopSchedules r)"
        using update_after_refetch [of m tm clk api b64] h a by simp
    qed
    have failed: "\<forall>api e. splatnet m = Some api \<and> getSchedules api = Inl e \<longrightarrow>
         snd (snd (update b64 tm clk m)) = Inl e \<and>
         regular_schedule (fst (update b64 tm clk m)) = None"
    proof (intro allI impI)
      fix api e
      assume a: "splatnet m = Some api \<and> getSchedules api = Inl e"
      show "snd (snd (update b64 tm clk m)) = Inl e \<and>
         regular_schedule (fst (update b64 tm clk m)) = None"
        using update_after_refetch [of m tm clk api b64] h a by simp
    qed
    from ok failed show "(\<forall>api r. splatnet m = Some api \<and> getSchedules api = Inr r \<longrightarrow>
         snd (snd (update b64 tm clk m)) = Inr () \<and>
         cached_schedules (fst (update b64 tm clk m)) = Some r \<and>
         regular_schedule (fst (update b64 tm clk m)) = getSchedule tm (clk 1) (regularSchedules r) \<and>
         anarchy_schedule (fst (update b64 tm clk m)) = getSchedule tm (clk 2) (bankaraSchedules r) \<and>
         fest_schedule (fst (update b64 tm clk m)) = getSchedule tm (clk 3) (festSchedules r) \<and>
         league_schedule (fst (update b64 tm clk m)) = getSchedule tm (clk 4) (leagueSchedules r) \<and>
         x_schedule (fst (update b64 tm clk m)) = getSchedule tm (clk 5) (xSchedules r) \<and>
         coop_schedule (fst (update b64 tm clk m)) = getSchedule tm (clk 6) (coopSchedules r)) \<and>
      (\<forall>api e. splatnet m = Some api \<and> getSchedules api = Inl e \<longrightarrow>
         snd (snd (update b64 tm clk m)) = Inl e \<and>
         regular_schedule (fst (update b64 tm clk m)) = None)"
      by (rule conjI)
  qed
qed

lemmas cycle_example_defs =
  update_def update_schedules_def select_others_def friend_node_id_def
  get_friend_nsaid_def example_b64_def js_ge_def js_lt_def example_times_def
  example_monitor_def example_config_def example_api_def fresh_schedules_def stale_schedules_def
  regular_past_def regular_now_def fest_now_def x_past_def x_now_def
  turf_war_def tricolor_def rainmaker_def tower_control_def stages_a_def
  fest_friend_def x_friend_def stale_monitor_def time_0300_def

theorem update_refetch_once_witness:
  "no_active_selection example_times time_0300 (cached_schedules stale_monitor) \<and>
   all_in_the_past example_times time_0300 stale_schedules \<and>
   reaches_refetch stale_monitor \<and>
   refetches example_b64 example_times (\<lambda>k. time_0300) stale_monitor = 1 \<and>
   fst (snd (update example_b64 example_times (\<lambda>k. time_0300) stale_monitor)) =
     [CallGetFriendsRefetch, CallGetSchedules, RefreshPresence] \<and>
   cached_schedules (fst (update example_b64 example_times (\<lambda>k. time_0300) stale_monitor)) =
     Some fresh_schedules \<and>
   regular_schedule (fst (update example_b64 example_times (\<lambda>k. time_0300) stale_monitor)) =
     Some regular_now \<and>
   x_schedule (fst (update example_b64 example_times (\<lambda>k. time_0300) stale_monitor)) =
     Some x_now"
proof -
  have p: "all_in_the_past example_times time_0300 stale_schedules"
    by (simp add: all_in_the_past_def in_the_past_def stale_schedules_def regular_past_def
        x_past_def example_times_def time_0300_def)
  have c: "cached_schedules stale_monitor = Some stale_schedules"
    and a: "splatnet stale_monitor = Some example_api"
    by (simp_all add: stale_monitor_def example_monitor_def)
  have n: "no_active_selection example_times time_0300 (cached_schedules stale_monitor)"
    using all_in_the_past_no_selection [OF p] by (simp add: c)
  then have miss: "regular_selection example_times time_0300 (cached_schedules stale_monitor) = None"
    using no_active_selection_regular [OF n] by (simp add: regular_selection_def)
  have re: "reaches_refetch stale_monitor"
    by (simp add: reaches_refetch_def stale_monitor_def example_monitor_def example_api_def)
  have g: "getSchedules example_api = Inr fresh_schedules"
    by (simp add: example_api_def)
  have s: "getSchedule example_times time_0300 (regularSchedules fresh_schedules) = Some regular_now"
    "getSchedule example_times time_0300 (xSchedules fresh_schedules) = Some x_now"
    by (simp_all add: fresh_schedules_def regular_past_def regular_now_def x_past_def x_now_def
        js_ge_def js_lt_def example_times_def time_0300_def)
  have e: "fst (snd (update example_b64 example_times (\<lambda>k. time_0300) stale_monitor)) =
     [CallGetFriendsRefetch, CallGetSchedules, RefreshPresence]"
    by (simp add: cycle_example_defs)
  note t = update_refetch_once [of example_b64 example_times "\<lambda>k. time_0300" stale_monitor]
  from t n re have one: "refetches example_b64 example_times (\<lambda>k. time_0300) stale_monitor = 1"
    by blast
  from t re miss a g have sel:
    "cached_schedules (fst (update example_b64 example_times (\<lambda>k. time_0300) stale_monitor)) =
       Some fresh_schedules"
    "regular_schedule (fst (update example_b64 example_times (\<lambda>k. time_0300) stale_monitor)) =
       getSchedule example_times time_0300 (regularSchedules fresh_schedules)"
    "x_schedule (fst (update example_b64 example_times (\<lambda>k. time_0300) stale_monitor)) =
       getSchedule example_times time_0300 (xSchedules fresh_schedules)"
    by blast+
  show ?thesis using n p re one e sel s by simp
qed

text \<open>
  Claim C3 as stated fails in two kinds of cycle. With a cached set that has no active
  selection and a request for the friend list that is rejected (line 100), the cycle
  ends before the schedules and asks for none. With a cached set whose X schedules all
  lie in the past beside a regular entry that covers \<open>now\<close>, the cycle ends normally
  with no X schedule selected and has asked for none: line 110 tests the regular
  selection only.
\<close>

theorem update_refetch_counterexample:
  "no_active_selection example_times time_0300 (cached_schedules offline_monitor) \<and>
   refetches example_b64 example_times (\<lambda>k. time_0300) offline_monitor = 0 \<and>
   update example_b64 example_times (\<lambda>k. time_0300) offline_monitor =
     (offline_monitor, [CallGetFriendsRefetch], Inl (Rejected ''ETIMEDOUT'')) \<and>
   getSchedule example_times time_0300
     (xSchedules (fresh_schedules\<lparr>xSchedules := [x_past]\<rparr>)) = None \<and>
   cached_schedules x_exhausted_monitor = Some (fresh_schedules\<lparr>xSchedules := [x_past]\<rparr>) \<and>
   refetches example_b64 example_times (\<lambda>k. time_0300) x_exhausted_monitor = 0 \<and>
   snd (snd (update example_b64 example_times (\<lambda>k. time_0300) x_exhausted_monitor)) = Inr () \<and>
   x_schedule (fst (update example_b64 example_times (\<lambda>k. time_0300) x_exhausted_monitor)) = None"
  by (simp add: no_active_selection_def refetches_def cycle_example_defs offline_monitor_def
      x_exhausted_monitor_def)

text \<open>
  The refetch is keyed on the regular schedules alone (line 110): a cycle whose cached
  set has a regular entry covering \<open>now\<close> asks for nothing, whatever the other kinds
  select.
\<close>

theorem update_regular_hit_no_refetch:
  assumes "getSchedule tm (clk 0)
             (case cached_schedules m of None \<Rightarrow> [] | Some r \<Rightarrow> regularSchedules r) = Some s"
  shows "refetches b64 tm clk m = 0"
proof (cases "cached_friends m \<noteq> None \<or> splatnet m = None \<or>
           (\<exists>api fs. splatnet m = Some api \<and> getFriendsRefetch api = Inr fs)")
  case True
  from update_friends_done [OF True, of b64 tm clk]
  obtain f pre where pre: "CallGetSchedules \<notin> set pre"
    and u: "update b64 tm clk m =
             (fst (update_schedules tm clk (m\<lparr>cached_friends := None, friend := f\<rparr>)),
              pre @ fst (snd (update_schedules tm clk (m\<lparr>cached_friends := None, friend := f\<rparr>))),
              snd (snd (update_schedules tm clk (m\<lparr>cached_friends := None, friend := f\<rparr>))))"
    by blast
  have "getSchedule tm (clk 0)
      (case cached_schedules (m\<lparr>cached_friends := None, friend := f\<rparr>) of
         None \<Rightarrow> [] | Some r \<Rightarrow> regularSchedules r) = Some s"
    using assms by simp
  note hit = update_schedules_hit [of tm clk "m\<lparr>cached_friends := None, friend := f\<rparr>", OF this]
  show ?thesis using pre by (simp add: refetches_def u hit)
next
  case False
  then obtain api e where "cached_friends m = None" "splatnet m = Some api" "getFriendsRefetch api = Inl e"
    by (cases "splatnet m"; cases "getFriendsRefetch (the (splatnet m))") auto
  then show ?thesis
    by (simp add: refetches_def update_friends_failed)
qed

theorem update_regular_hit_no_refetch_witness:
  "refetches example_b64 example_times (\<lambda>k. time_0300) x_exhausted_monitor = 0 \<and>
   regular_schedule (fst (update example_b64 example_times (\<lambda>k. time_0300) x_exhausted_monitor))
     = Some regular_now \<and>
   x_schedule (fst (update example_b64 example_times (\<lambda>k. time_0300) x_exhausted_monitor)) = None \<and>
   getSchedule example_times time_0300 (xSchedules fresh_schedules) = Some x_now"
proof -
  have h: "getSchedule example_times ((\<lambda>k. time_0300) (0::nat))
             (case cached_schedules x_exhausted_monitor of None \<Rightarrow> [] | Some r \<Rightarrow> regularSchedules r)
           = Some regular_now"
    by (simp add: x_exhausted_monitor_def cycle_example_defs)
  have "getSchedule example_times time_0300 (xSchedules fresh_schedules) = Some x_now"
    by (simp add: cycle_example_defs)
  moreover have "regular_schedule (fst (update example_b64 example_times (\<lambda>k. time_0300) x_exhausted_monitor))
     = Some regular_now"
    "x_schedule (fst (update example_b64 example_times (\<lambda>k. time_0300) x_exhausted_monitor)) = None"
    by (simp_all add: x_exhausted_monitor_def cycle_example_defs)
  ultimately show ?thesis
    using update_regular_hit_no_refetch [OF h, of example_b64] by simp
qed

section \<open>The activity builder\<close>

lemma callback_no_monitor:
  "context_monitor context = None \<Longrightarrow>
   callback enc pathname product activity game context = (activity, None)"
  by (simp add: callback_def)

text \<open>
  Claim C7. When the monitor has no cached friend, or the friend's online state is none
  of VS matching, VS fighting, co-op matching and co-op fighting, the callback leaves
  the activity as it was passed, in every field including those of its extension, and
  raises nothing.
\<close>

theorem callback_leaves_activity:
  assumes "context_monitor context = Some monitor"
    and "friend monitor = None \<or>
         (\<exists>f. friend monitor = Some f \<and>
              onlineState f \<noteq> VS_MODE_MATCHING \<and> onlineState f \<noteq> VS_MODE_FIGHTING \<and>
              onlineState f \<noteq> COOP_MODE_MATCHING \<and> onlineState f \<noteq> COOP_MODE_FIGHTING)"
  shows "callback enc pathname product activity game context = (activity, None)"
  using assms
  by (auto simp: callback_def vs_enrich_def coop_enrich_def split: option.splits)

theorem callback_leaves_activity_witness:
  "callback example_enc example_pathname ''nxapi'' base_activity () (context_of example_monitor)
     = (base_activity, None) \<and>
   friend example_monitor = None \<and>
   callback example_enc example_pathname ''nxapi'' base_activity ()
     (context_of (tracking_monitor\<lparr>friend := Some idle_friend\<rparr>)) = (base_activity, None) \<and>
   onlineState idle_friend = OtherOnlineState ''ONLINE''"
proof -
  let ?m = "tracking_monitor\<lparr>friend := Some idle_friend\<rparr>"
  have c1: "context_monitor (context_of example_monitor) = Some example_monitor"
    and c2: "context_monitor (context_of ?m) = Some ?m"
    by (simp_all add: context_monitor_def context_of_def)
  have n: "friend example_monitor = None" by (simp add: example_monitor_def)
  have i: "onlineState idle_friend = OtherOnlineState ''ONLINE''" by (simp add: idle_friend_def)
  have h1: "friend example_monitor = None \<or>
         (\<exists>f. friend example_monitor = Some f \<and>
              onlineState f \<noteq> VS_MODE_MATCHING \<and> onlineState f \<noteq> VS_MODE_FIGHTING \<and>
              onlineState f \<noteq> COOP_MODE_MATCHING \<and> onlineState f \<noteq> COOP_MODE_FIGHTING)"
    using n by simp
  have h2: "friend ?m = None \<or>
         (\<exists>f. friend ?m = Some f \<and>
              onlineState f \<noteq> VS_MODE_MATCHING \<and> onlineState f \<noteq> VS_MODE_FIGHTING \<and>
              onlineState f \<noteq> COOP_MODE_MATCHING \<and> onlineState f \<noteq> COOP_MODE_FIGHTING)"
    using i by simp
  show ?thesis
    using callback_leaves_activity [OF c1 h1, of example_enc example_pathname "''nxapi''" base_activity "()"]
      callback_leaves_activity [OF c2 h2, of example_enc example_pathname "''nxapi''" base_activity "()"]
      n i by simp
qed

text \<open>
  Claim C6, at a friend in a Splatfest battle. The cached schedule set has one fest
  entry that covers \<open>now\<close>, with the rule Tricolor Turf War; the cycle selects it as
  \<open>fest_schedule\<close>. The callback reads the match setting of \<open>regular_schedule\<close> for the
  mode FEST (line 221) and never reads \<open>fest_schedule\<close>. With a regular rotation that
  carries a setting, the details name the rule of the regular rotation, Turf War; with
  a regular rotation without a setting, as during a Splatfest, the details name no rule
  and no stage image is set. In neither case do they come from the fest entry.
\<close>

theorem callback_fest_reads_regular_schedule:
  "snd (snd (update example_b64 example_times (\<lambda>k. time_0300) example_monitor)) = Inr () \<and>
   friend (fst (update example_b64 example_times (\<lambda>k. time_0300) example_monitor)) = Some fest_friend \<and>
   fest_schedule (fst (update example_b64 example_times (\<lambda>k. time_0300) example_monitor)) = Some fest_now \<and>
   festSchedules fresh_schedules = [fest_now] \<and>
   covers_now example_times time_0300 fest_now \<and>
   festMatchSetting fest_now = Some tricolor \<and>
   vsRule_name tricolor = ''Tricolor Turf War'' \<and>
   details (fst (callback example_enc example_pathname ''nxapi'' base_activity ()
      (context_of (fst (update example_b64 example_times (\<lambda>k. time_0300) example_monitor)))))
     = Some ''Splatfest Battle - Turf War'' \<and>
   snd (snd (update example_b64 example_times (\<lambda>k. time_0300) splatfest_monitor)) = Inr () \<and>
   fest_schedule (fst (update example_b64 example_times (\<lambda>k. time_0300) splatfest_monitor)) = Some fest_now \<and>
   details (fst (callback example_enc example_pathname ''nxapi'' base_activity ()
      (context_of (fst (update example_b64 example_times (\<lambda>k. time_0300) splatfest_monitor)))))
     = Some ''Splatfest Battle'' \<and>
   largeImageKey (fst (callback example_enc example_pathname ''nxapi'' base_activity ()
      (context_of (fst (update example_b64 example_times (\<lambda>k. time_0300) splatfest_monitor)))))
     = None"
  by (simp add: cycle_example_defs splatfest_monitor_def splatfest_schedules_def
      covers_now_def Let_def
      callback_def context_monitor_def context_of_def vs_enrich_def coop_enrich_def
      mode_name_def mode_image_def schedule_setting_def base_activity_def)

section \<open>The details of the sibling modes\<close>

lemma getSchedule_unique:
  assumes "p \<in> set xs" "covers_now tm now p"
    and "\<forall>q \<in> set xs. covers_now tm now q \<longrightarrow> q = p"
  shows "getSchedule tm now xs = Some p"
proof (cases "List.find (covers_now tm now) xs")
  case None
  with assms(1,2) show ?thesis by (auto simp: find_None_iff)
next
  case (Some q)
  then have "q \<in> set xs" "covers_now tm now q" by (auto simp: find_Some_iff)
  with assms(3) Some show ?thesis by (simp add: getSchedule_find)
qed

lemma update_schedules_selections:
  assumes "update_schedules tm clk m = (m', evs, Inr ())"
  shows "\<exists>k \<in> {0, 1}.
           regular_schedule m' = getSchedule tm (clk k)
             (case cached_schedules m' of None \<Rightarrow> [] | Some r \<Rightarrow> regularSchedules r)"
    and "league_schedule m' = getSchedule tm (clk 4)
             (case cached_schedules m' of None \<Rightarrow> [] | Some r \<Rightarrow> leagueSchedules r)"
    and "x_schedule m' = getSchedule tm (clk 5)
             (case cached_schedules m' of None \<Rightarrow> [] | Some r \<Rightarrow> xSchedules r)"
    and "friend m' = friend m"
  using assms
  by (auto simp: update_schedules_def select_others_def Let_def split: if_splits option.splits sum.splits)

lemma update_selections:
  assumes "update b64 tm clk m = (m', evs, Inr ())"
  shows "\<exists>k \<in> {0, 1}.
           regular_schedule m' = getSchedule tm (clk k)
             (case cached_schedules m' of None \<Rightarrow> [] | Some r \<Rightarrow> regularSchedules r)"
    and "league_schedule m' = getSchedule tm (clk 4)
             (case cached_schedules m' of None \<Rightarrow> [] | Some r \<Rightarrow> leagueSchedules r)"
    and "x_schedule m' = getSchedule tm (clk 5)
             (case cached_schedules m' of None \<Rightarrow> [] | Some r \<Rightarrow> xSchedules r)"
proof -
  from assms obtain m0 evs0 where "update_schedules tm clk m0 = (m', evs0, Inr ())"
    by (auto simp: update_def Let_def split: option.splits sum.splits prod.splits)
  from update_schedules_selections [OF this]
  show "\<exists>k \<in> {0, 1}.
           regular_schedule m' = getSchedule tm (clk k)
             (case cached_schedules m' of None \<Rightarrow> [] | Some r \<Rightarrow> regularSchedules r)"
    and "league_schedule m' = getSchedule tm (clk 4)
             (case cached_schedules m' of None \<Rightarrow> [] | Some r \<Rightarrow> leagueSchedules r)"
    and "x_schedule m' = getSchedule tm (clk 5)
             (case cached_schedules m' of None \<Rightarrow> [] | Some r \<Rightarrow> xSchedules r)"
    by blast+
qed

lemma callback_details_of_setting:
  assumes "context_monitor context = Some monitor" "friend monitor = Some f"
    and "onlineState f = VS_MODE_MATCHING \<or> onlineState f = VS_MODE_FIGHTING"
    and "vsMode f = Some vm"
  shows "details (fst (callback enc pathname product activity game context)) =
           Some ((case mode_name (Some vm) of Some n \<Rightarrow> n | None \<Rightarrow> vsMode_name vm)
                 @ (case schedule_setting monitor (Some vm) of
                      Some st \<Rightarrow> '' - '' @ vsRule_name st | None \<Rightarrow> [])
                 @ (if onlineState f = VS_MODE_MATCHING then '' (matching)'' else []))"
  using assms
  by (auto simp: callback_def vs_enrich_def coop_enrich_def Let_def
      split: option.splits list.splits)

text \<open>
  The sibling modes. For a friend in a regular, league or X battle, after a cycle that
  ended normally, when exactly one entry of that kind in the cached set covers \<open>now\<close>
  and carries a match setting, the details are the name of the mode, the name of that
  setting's rule, and the matching suffix. The clock is taken as constant over the
  cycle.
\<close>

theorem details_from_active_entry:
  assumes cyc: "update b64 tm (\<lambda>k. now) m = (m', evs, Inr ())"
    and cache: "cached_schedules m' = Some r"
    and ctx: "context_monitor context = Some m'"
    and fr: "friend m' = Some f" "onlineState f = VS_MODE_MATCHING \<or> onlineState f = VS_MODE_FIGHTING"
      "vsMode f = Some vm"
    and kind:
      "(vsMode_mode vm = ''REGULAR'' \<and>
          (\<exists>p. sole_active tm now (regularSchedules r) p \<and> regularMatchSetting p = Some st)) \<or>
       (vsMode_mode vm = ''LEAGUE'' \<and>
          (\<exists>p. sole_active tm now (leagueSchedules r) p \<and> leagueMatchSetting p = Some st)) \<or>
       (vsMode_mode vm = ''X_MATCH'' \<and>
          (\<exists>p. sole_active tm now (xSchedules r) p \<and> xMatchSetting p = Some st))"
  shows "details (fst (callback enc pathname product activity game context)) =
           Some ((case mode_name (Some vm) of Some n \<Rightarrow> n | None \<Rightarrow> vsMode_name vm)
                 @ '' - '' @ vsRule_name st
                 @ (if onlineState f = VS_MODE_MATCHING then '' (matching)'' else []))"
proof -
  note sel = update_selections [OF cyc]
  have reg: "regular_schedule m' = getSchedule tm now (regularSchedules r)"
    using sel(1) cache by auto
  have lea: "league_schedule m' = getSchedule tm now (leagueSchedules r)"
    using sel(2) cache by simp
  have x: "x_schedule m' = getSchedule tm now (xSchedules r)"
    using sel(3) cache by simp
  have "schedule_setting m' (Some vm) = Some st"
    using kind
  proof (elim disjE conjE exE)
    fix p assume "vsMode_mode vm = ''REGULAR''" "sole_active tm now (regularSchedules r) p"
      "regularMatchSetting p = Some st"
    then show ?thesis
      using getSchedule_unique [of p "regularSchedules r" tm now]
      by (simp add: schedule_setting_def reg sole_active_def)
  next
    fix p assume "vsMode_mode vm = ''LEAGUE''" "sole_active tm now (leagueSchedules r) p"
      "leagueMatchSetting p = Some st"
    then show ?thesis
      using getSchedule_unique [of p "leagueSchedules r" tm now]
      by (simp add: schedule_setting_def lea sole_active_def)
  next
    fix p assume "vsMode_mode vm = ''X_MATCH''" "sole_active tm now (xSchedules r) p"
      "xMatchSetting p = Some st"
    then show ?thesis
      using getSchedule_unique [of p "xSchedules r" tm now]
      by (simp add: schedule_setting_def x sole_active_def)
  qed
  then show ?thesis
    using callback_details_of_setting [OF ctx fr, of enc pathname product activity game] by simp
qed

lemma x_cycle:
  "update example_b64 example_times (\<lambda>k. time_0300) x_monitor =
     (x_monitor\<lparr>cached_friends := None, friend := Some x_friend,
        regular_schedule := Some regular_now, fest_schedule := Some fest_now,
        x_schedule := Some x_now\<rparr>, [RefreshPresence], Inr ())"
  by (simp add: cycle_example_defs x_monitor_def)

theorem details_from_active_entry_witness:
  "sole_active example_times time_0300 (xSchedules fresh_schedules) x_now \<and>
   xMatchSetting x_now = Some rainmaker \<and>
   xMatchSetting x_past = Some tower_control \<and>
   details (fst (callback example_enc example_pathname ''nxapi'' base_activity ()
      (context_of (fst (update example_b64 example_times (\<lambda>k. time_0300) x_monitor)))))
     = Some ''X Battle - Rainmaker (matching)''"
proof -
  let ?m' = "x_monitor\<lparr>cached_friends := None, friend := Some x_friend,
        regular_schedule := Some regular_now, fest_schedule := Some fest_now,
        x_schedule := Some x_now\<rparr>"
  have so: "sole_active example_times time_0300 (xSchedules fresh_schedules) x_now"
    by (simp add: sole_active_def covers_now_def fresh_schedules_def x_now_def x_past_def
        example_times_def time_0300_def)
  have st: "xMatchSetting x_now = Some rainmaker" "xMatchSetting x_past = Some tower_control"
    by (simp_all add: x_now_def x_past_def)
  have cache: "cached_schedules ?m' = Some fresh_schedules"
    by (simp add: x_monitor_def example_monitor_def)
  have ctx: "context_monitor (context_of ?m') = Some ?m'"
    by (simp add: context_monitor_def context_of_def)
  have fr: "friend ?m' = Some x_friend"
    "onlineState x_friend = VS_MODE_MATCHING \<or> onlineState x_friend = VS_MODE_FIGHTING"
    "vsMode x_friend = Some \<lparr>vsMode_mode = ''X_MATCH'', vsMode_id = ''VnNNb2RlLTM='',
                     vsMode_name = ''X Battle''\<rparr>"
    by (simp_all add: x_friend_def)
  have kind: "(vsMode_mode \<lparr>vsMode_mode = ''X_MATCH'', vsMode_id = ''VnNNb2RlLTM='',
                     vsMode_name = ''X Battle''\<rparr> = ''REGULAR'' \<and>
          (\<exists>p. sole_active example_times time_0300 (regularSchedules fresh_schedules) p \<and>
               regularMatchSetting p = Some rainmaker)) \<or>
       (vsMode_mode \<lparr>vsMode_mode = ''X_MATCH'', vsMode_id = ''VnNNb2RlLTM='',
                     vsMode_name = ''X Battle''\<rparr> = ''LEAGUE'' \<and>
          (\<exists>p. sole_active example_times time_0300 (leagueSchedules fresh_schedules) p \<and>
               leagueMatchSetting p = Some rainmaker)) \<or>
       (vsMode_mode \<lparr>vsMode_mode = ''X_MATCH'', vsMode_id = ''VnNNb2RlLTM='',
                     vsMode_name = ''X Battle''\<rparr> = ''X_MATCH'' \<and>
          (\<exists>p. sole_active example_times time_0300 (xSchedules fresh_schedules) p \<and>
               xMatchSetting p = Some rainmaker))"
    using so st by auto
  have "details (fst (callback example_enc example_pathname ''nxapi'' base_activity ()
          (context_of ?m'))) = Some ''X Battle - Rainmaker (matching)''"
    using details_from_active_entry [OF x_cycle cache ctx fr kind,
        of example_enc example_pathname "''nxapi''" base_activity "()"]
    by (simp add: mode_name_def rainmaker_def x_friend_def)
  then show ?thesis using so st by (simp add: x_cycle)
qed

end
